theory Spec2Isabelle
  imports Main "HOL-Library.Multiset"
begin

section \<open>JavaScript values, errors and strings\<close>

text \<open>
  The pages of the portal are plain browser JavaScript. A field of a record that came
  out of \<^verbatim>\<open>response.json()\<close> is a JavaScript value: absent (\<^verbatim>\<open>undefined\<close>),
  \<^verbatim>\<open>null\<close>, a boolean, a number or a string. The numbers of such fields are modelled as
  integers (JSON numerals without fraction or exponent, of magnitude below \<open>2^53\<close>, where
  a double is exact); fields that hold JSON arrays or objects are not modelled.
  A string is a list of code units; HOL's \<open>char\<close> has 8 bits, so the model covers
  the code units U+0000 to U+00FF.
\<close>

datatype jsval = JUndefined | JNull | JBool bool | JNumber int | JString string

text \<open>An exception is its class and its message.\<close>

datatype jserror = Error string | TypeError string | SyntaxError string

text \<open>\<^verbatim>\<open>ToBoolean\<close>: what \<^verbatim>\<open>||\<close>, \<^verbatim>\<open>!\<close> and \<^verbatim>\<open>if\<close> look at.\<close>

fun truthy :: "jsval \<Rightarrow> bool" where
  "truthy JUndefined = False"
| "truthy JNull = False"
| "truthy (JBool b) = b"
| "truthy (JNumber n) = (n \<noteq> 0)"
| "truthy (JString s) = (s \<noteq> [])"

text \<open>\<^verbatim>\<open>a || b\<close>\<close>

definition orElse :: "jsval \<Rightarrow> jsval \<Rightarrow> jsval" where
  "orElse a b = (if truthy a then a else b)"

definition isDigit :: "char \<Rightarrow> bool" where
  "isDigit c = (48 \<le> (of_char c :: nat) \<and> (of_char c :: nat) \<le> 57)"

definition digitVal :: "char \<Rightarrow> nat" where
  "digitVal c = (of_char c :: nat) - 48"

text \<open>
  \<^verbatim>\<open>StrWhiteSpaceChar\<close> within U+0000..U+00FF: TAB, LF, VT, FF, CR, SPACE and NBSP.
  \<^verbatim>\<open>parseInt\<close> and \<^verbatim>\<open>trim\<close> skip these.
\<close>

definition isWhiteSpace :: "char \<Rightarrow> bool" where
  "isWhiteSpace c = ((of_char c :: nat) \<in> {9, 10, 11, 12, 13, 32, 160})"

text \<open>\<^verbatim>\<open>String.prototype.toLowerCase\<close> on the code units U+0000..U+00FF.\<close>

definition lowerChar :: "char \<Rightarrow> char" where
  "lowerChar c =
     (let n = (of_char c :: nat)
      in if (65 \<le> n \<and> n \<le> 90) \<or> (192 \<le> n \<and> n \<le> 222 \<and> n \<noteq> 215)
         then char_of (n + 32) else c)"

definition toLowerCase :: "string \<Rightarrow> string" where
  "toLowerCase s = map lowerChar s"

text \<open>\<^verbatim>\<open>s.startsWith(q)\<close> and \<^verbatim>\<open>s.includes(q)\<close>: \<open>q\<close> occurs in \<open>s\<close> as a contiguous run.\<close>

fun startsWith :: "string \<Rightarrow> string \<Rightarrow> bool" where
  "startsWith s [] = True"
| "startsWith [] (q # qs) = False"
| "startsWith (c # cs) (q # qs) = (c = q \<and> startsWith cs qs)"

fun includesStr :: "string \<Rightarrow> string \<Rightarrow> bool" where
  "includesStr [] q = (q = [])"
| "includesStr (c # cs) q = (startsWith (c # cs) q \<or> includesStr cs q)"

text \<open>\<^verbatim>\<open>String.prototype.trim\<close>\<close>

definition trim :: "string \<Rightarrow> string" where
  "trim s = rev (dropWhile isWhiteSpace (rev (dropWhile isWhiteSpace s)))"

text \<open>Decimal numerals: \<^verbatim>\<open>ToString\<close> of an integer-valued number.\<close>

fun natToString :: "nat \<Rightarrow> string" where
  "natToString n =
     (if n < 10 then [char_of (48 + n)]
      else natToString (n div 10) @ [char_of (48 + n mod 10)])"

definition intToString :: "int \<Rightarrow> string" where
  "intToString i = (if i < 0 then CHR ''-'' # natToString (nat (- i)) else natToString (nat i))"

text \<open>\<^verbatim>\<open>ToString\<close>, as a template literal, a property key and \<^verbatim>\<open>new Error(x)\<close> apply it.\<close>

fun toStringJS :: "jsval \<Rightarrow> string" where
  "toStringJS JUndefined = ''undefined''"
| "toStringJS JNull = ''null''"
| "toStringJS (JBool b) = (if b then ''true'' else ''false'')"
| "toStringJS (JNumber n) = intToString n"
| "toStringJS (JString s) = s"

section \<open>Identifier-aware sorting (public/policies.js)\<close>

text \<open>\<^verbatim>\<open>s.split('.')\<close>: the segments between the dots; the empty string has one empty segment.\<close>

fun splitDot :: "string \<Rightarrow> string list" where
  "splitDot [] = [[]]"
| "splitDot (c # cs) =
     (if c = CHR ''.'' then [] # splitDot cs
      else (case splitDot cs of [] \<Rightarrow> [[c]] | w # ws \<Rightarrow> (c # w) # ws))"

text \<open>
  The Number value of a non-negative integer: the nearest double (53 bits of precision, ties
  to the even significand), written as the integer it is. Every such integer below
  \<open>2^53\<close> is a double. The doubles end below \<open>2^1024\<close>; \<open>2^1024\<close> stands for
  \<^verbatim>\<open>Infinity\<close>, which compares above every double and equal to itself.
\<close>

function bitLength :: "int \<Rightarrow> nat" where
  "bitLength n = (if n \<le> 0 then 0 else Suc (bitLength (n div 2)))"
  by pat_completeness auto
termination
  by (relation "measure nat") auto

declare bitLength.simps [simp del]

definition nearestDouble :: "int \<Rightarrow> int" where
  "nearestDouble n =
     (if n < 9007199254740992 then n
      else (let e = bitLength n - 53;
                q = n div 2 ^ e;
                r = n mod 2 ^ e;
                half = 2 ^ (e - 1);
                m = (if r > half \<or> (r = half \<and> odd q) then q + 1 else q);
                v = m * 2 ^ e
            in if v \<ge> 2 ^ 1024 then 2 ^ 1024 else v))"

text \<open>
  \<^verbatim>\<open>parseInt(part, 10)\<close>: leading white space is skipped, then an optional sign, then the
  longest run of decimal digits; \<open>None\<close> is \<^verbatim>\<open>NaN\<close> (no digit there). The result is
  the sign times the Number value of the integer the digits denote (of all its digits: an
  engine may read the digits after the 20th as zeros, which this model does not do).
\<close>

definition parseInt :: "string \<Rightarrow> int option" where
  "parseInt s =
     (let t = dropWhile isWhiteSpace s;
          neg = (t \<noteq> [] \<and> hd t = CHR ''-'');
          u = (if t \<noteq> [] \<and> (hd t = CHR ''-'' \<or> hd t = CHR ''+'') then tl t else t);
          ds = takeWhile isDigit u
      in if ds = [] then None
         else Some ((if neg then - 1 else 1)
                      * nearestDouble (foldl (\<lambda>a d. 10 * a + int (digitVal d)) 0 ds)))"

text \<open>\<^verbatim>\<open>part => { const num = parseInt(part, 10); return isNaN(num) ? 0 : num; }\<close>\<close>

definition segmentValue :: "string \<Rightarrow> int" where
  "segmentValue part = (case parseInt part of None \<Rightarrow> 0 | Some num \<Rightarrow> num)"

definition partsOf :: "string \<Rightarrow> int list" where
  "partsOf policyId = map segmentValue (splitDot policyId)"

text \<open>\<^verbatim>\<open>parts[i] || 0\<close>: past the end the read is \<^verbatim>\<open>undefined\<close>, which \<^verbatim>\<open>||\<close> turns into 0.\<close>

definition partAt :: "int list \<Rightarrow> nat \<Rightarrow> int" where
  "partAt parts i = (if i < length parts then parts ! i else 0)"

text \<open>
  The \<^verbatim>\<open>for\<close> loop of the comparator from index \<open>i\<close> on: \<open>Some (- 1)\<close> or \<open>Some 1\<close> when
  it returns inside the loop, \<open>None\<close> when it runs to \<^verbatim>\<open>maxLength\<close>.
\<close>

function compareFrom :: "int list \<Rightarrow> int list \<Rightarrow> nat \<Rightarrow> int option" where
  "compareFrom partsA partsB i =
     (if i < max (length partsA) (length partsB) then
        (if partAt partsA i < partAt partsB i then Some (- 1)
         else if partAt partsA i > partAt partsB i then Some 1
         else compareFrom partsA partsB (Suc i))
      else None)"
  by pat_completeness auto
termination
  by (relation "measure (\<lambda>(partsA, partsB, i). max (length partsA) (length partsB) - i)") auto

declare compareFrom.simps [simp del]

text \<open>
  The comparator on two identifier strings. \<^verbatim>\<open>localeCompare\<close> is the browser's collation;
  it is the parameter \<open>lc\<close> (negative, zero or positive).
\<close>

definition comparePolicyIds :: "(string \<Rightarrow> string \<Rightarrow> int) \<Rightarrow> string \<Rightarrow> string \<Rightarrow> int" where
  "comparePolicyIds lc policyIdA policyIdB =
     (case compareFrom (partsOf policyIdA) (partsOf policyIdB) 0 of
        Some r \<Rightarrow> r
      | None \<Rightarrow> lc policyIdA policyIdB)"

text \<open>An item of the listing, as \<^verbatim>\<open>renderSections\<close> builds it.\<close>

record item =
  i_id :: jsval
  i_policyId :: jsval
  i_name :: jsval
  i_section :: jsval
  i_sectionName :: jsval

text \<open>
  \<^verbatim>\<open>const policyIdA = a.policyId || ''; policyIdA.split('.')\<close>: a missing (falsy) identifier
  is the empty string; a truthy value that is no string has no \<^verbatim>\<open>split\<close> method, and the
  call throws.
\<close>

definition policyIdString :: "string \<Rightarrow> jsval \<Rightarrow> jserror + string" where
  "policyIdString var v =
     (case orElse v (JString []) of
        JString s \<Rightarrow> Inr s
      | _ \<Rightarrow> Inl (TypeError (var @ ''.split is not a function'')))"

definition compareItems :: "(string \<Rightarrow> string \<Rightarrow> int) \<Rightarrow> item \<Rightarrow> item \<Rightarrow> jserror + int" where
  "compareItems lc a b =
     (case policyIdString ''policyIdA'' (i_policyId a) of
        Inl e \<Rightarrow> Inl e
      | Inr policyIdA \<Rightarrow>
          (case policyIdString ''policyIdB'' (i_policyId b) of
             Inl e \<Rightarrow> Inl e
           | Inr policyIdB \<Rightarrow> Inr (comparePolicyIds lc policyIdA policyIdB)))"

text \<open>
  \<^verbatim>\<open>Array.prototype.sort(comparefn)\<close>. The standard fixes the result, not the order of
  the comparisons: the sort is stable, and for a consistent comparator the result is the
  sorted permutation. It is modelled as a stable insertion sort; an exception of the
  comparator ends the sort. On an array of two or more elements every element is compared
  at least once, here as in any implementation.
\<close>

fun insertBy :: "('a \<Rightarrow> 'a \<Rightarrow> jserror + int) \<Rightarrow> 'a \<Rightarrow> 'a list \<Rightarrow> jserror + 'a list" where
  "insertBy cmp x [] = Inr [x]"
| "insertBy cmp x (y # ys) =
     (case cmp x y of
        Inl e \<Rightarrow> Inl e
      | Inr c \<Rightarrow>
          if c \<le> 0 then Inr (x # y # ys)
          else (case insertBy cmp x ys of Inl e \<Rightarrow> Inl e | Inr zs \<Rightarrow> Inr (y # zs)))"

fun arraySort :: "('a \<Rightarrow> 'a \<Rightarrow> jserror + int) \<Rightarrow> 'a list \<Rightarrow> jserror + 'a list" where
  "arraySort cmp [] = Inr []"
| "arraySort cmp (x # xs) =
     (case arraySort cmp xs of Inl e \<Rightarrow> Inl e | Inr ys \<Rightarrow> insertBy cmp x ys)"

definition sortItemsByPolicyNumber ::
  "(string \<Rightarrow> string \<Rightarrow> int) \<Rightarrow> item list \<Rightarrow> jserror + item list" where
  "sortItemsByPolicyNumber lc items = arraySort (compareItems lc) items"














text \<open>Comparison by code units, one consistent comparator.\<close>

fun codeUnitCompare :: "string \<Rightarrow> string \<Rightarrow> int" where
  "codeUnitCompare [] [] = 0"
| "codeUnitCompare [] (y # ys) = - 1"
| "codeUnitCompare (x # xs) [] = 1"
| "codeUnitCompare (x # xs) (y # ys) =
     (if (of_char x :: nat) < of_char y then - 1
      else if (of_char x :: nat) > of_char y then 1
      else codeUnitCompare xs ys)"


text \<open>An identifier the comparator accepts: a string, or a falsy value (taken as \<^verbatim>\<open>''\<close>).\<close>

definition stringOrMissing :: "jsval \<Rightarrow> bool" where
  "stringOrMissing v = (case v of JString s \<Rightarrow> True | _ \<Rightarrow> \<not> truthy v)"



text \<open>Items for the examples: one with the identifier \<open>s\<close>, one without identifier.\<close>

definition itemWithId :: "string \<Rightarrow> item" where
  "itemWithId s = \<lparr>i_id = JUndefined, i_policyId = JString s, i_name = JUndefined,
     i_section = JUndefined, i_sectionName = JUndefined\<rparr>"


section \<open>The API client (public/policies.js, public/bylaws.js)\<close>

text \<open>
  What \<^verbatim>\<open>fetch\<close> does to a request: it rejects with an error, or it resolves to a
  response with a status and a body. A body read with \<^verbatim>\<open>response.json()\<close> is one of:
  \<^item> \<open>Unparsable e\<close>: the read rejects with \<open>e\<close> (no valid JSON);
  \<^item> \<open>NullBody\<close>: the JSON text \<^verbatim>\<open>null\<close>;
  \<^item> \<open>JsonBody d x\<close>: any other JSON value, \<open>d\<close> what its property \<^verbatim>\<open>detail\<close> reads (absent:
    \<open>JUndefined\<close>) and \<open>x\<close> its content.
\<close>

datatype 'p jsonBody = Unparsable jserror | NullBody | JsonBody jsval 'p

datatype 'b fetchOutcome = Rejected jserror | Response nat 'b

text \<open>
  The \<^verbatim>\<open>try\<close> block of \<^verbatim>\<open>apiRequest\<close>. \<open>Inr None\<close> is the return value \<^verbatim>\<open>null\<close>.
  \<^verbatim>\<open>response.ok\<close> is a status from 200 to 299. With a body that is \<^verbatim>\<open>null\<close>, the read of
  \<^verbatim>\<open>error.detail\<close> throws a TypeError (its message is the engine's).
\<close>

definition apiRequestTry :: "'p jsonBody fetchOutcome \<Rightarrow> jserror + 'p option" where
  "apiRequestTry outcome =
     (case outcome of
        Rejected e \<Rightarrow> Inl e
      | Response status body \<Rightarrow>
          if \<not> (200 \<le> status \<and> status \<le> 299) then
            (if status = 404 then Inl (Error ''Resource not found'')
             else if status \<ge> 500 then Inl (Error ''Server error. Please try again later.'')
             else (case body of
                     Unparsable e \<Rightarrow> Inl (Error ''Request failed'')
                   | NullBody \<Rightarrow> Inl (TypeError ''Cannot read properties of null'')
                   | JsonBody detail x \<Rightarrow>
                       Inl (Error (toStringJS (orElse detail (JString ''Request failed''))))))
          else if status = 204 then Inr None
          else (case body of
                  Unparsable e \<Rightarrow> Inl e
                | NullBody \<Rightarrow> Inr None
                | JsonBody detail x \<Rightarrow> Inr (Some x)))"

text \<open>The \<^verbatim>\<open>catch\<close> block of \<^verbatim>\<open>apiRequest\<close>: what it throws for a caught error.\<close>

definition apiRequestCatch :: "jserror \<Rightarrow> jserror" where
  "apiRequestCatch error =
     (if error = TypeError ''Failed to fetch''
      then Error ''Network error. Please check your connection and try again.''
      else error)"

definition apiRequest :: "'p jsonBody fetchOutcome \<Rightarrow> jserror + 'p option" where
  "apiRequest outcome =
     (case apiRequestTry outcome of Inl error \<Rightarrow> Inl (apiRequestCatch error) | Inr v \<Rightarrow> Inr v)"

section \<open>The field mapper and the listing (public/policies.js)\<close>

text \<open>A policy record as the API sends it (fields \<open>r_\<close>) and as the pages use it (fields \<open>p_\<close>).\<close>

record apiPolicy =
  r_id :: jsval
  r_policy_id :: jsval
  r_policy_name :: jsval
  r_section :: jsval
  r_policy_content :: jsval
  r_status :: jsval
  r_created_at :: jsval
  r_updated_at :: jsval
  r_created_by :: jsval
  r_updated_by :: jsval

record policy =
  p_id :: jsval
  p_policyId :: jsval
  p_name :: jsval
  p_policyName :: jsval
  p_section :: jsval
  p_content :: jsval
  p_policyContent :: jsval
  p_status :: jsval
  p_createdAt :: jsval
  p_updatedAt :: jsval
  p_createdBy :: jsval
  p_updatedBy :: jsval

text \<open>
  The content of a listing response: a JSON array, or something else. An element of the
  array is \<open>None\<close> for \<^verbatim>\<open>null\<close>, else the fields that can be read off it.
\<close>

datatype listing = NotAnArray | PolicyArray "apiPolicy option list"

definition mapPolicy :: "apiPolicy \<Rightarrow> policy" where
  "mapPolicy policy =
     \<lparr>p_id = r_id policy,
      p_policyId = r_policy_id policy,
      p_name = r_policy_name policy,
      p_policyName = r_policy_name policy,
      p_section = r_section policy,
      p_content = r_policy_content policy,
      p_policyContent = r_policy_content policy,
      p_status = r_status policy,
      p_createdAt = r_created_at policy,
      p_updatedAt = r_updated_at policy,
      p_createdBy = r_created_by policy,
      p_updatedBy = r_updated_by policy\<rparr>"

text \<open>\<^verbatim>\<open>policies.map(policy => ({ id: policy.id, ... }))\<close>: a \<^verbatim>\<open>null\<close> element throws.\<close>

fun mapPolicies :: "apiPolicy option list \<Rightarrow> jserror + policy list" where
  "mapPolicies [] = Inr []"
| "mapPolicies (None # ps) = Inl (TypeError ''Cannot read properties of null'')"
| "mapPolicies (Some policy # ps) =
     (case mapPolicies ps of Inl e \<Rightarrow> Inl e | Inr ms \<Rightarrow> Inr (mapPolicy policy # ms))"

text \<open>
  \<^verbatim>\<open>getApprovedPolicies\<close>, given what \<^verbatim>\<open>fetch\<close> does to its one request: every error, of
  the request or of the mapping, is caught and the empty list returned.
\<close>

definition getApprovedPolicies :: "listing jsonBody fetchOutcome \<Rightarrow> policy list" where
  "getApprovedPolicies outcome =
     (case apiRequest outcome of
        Inl error \<Rightarrow> []
      | Inr None \<Rightarrow> []
      | Inr (Some NotAnArray) \<Rightarrow> []
      | Inr (Some (PolicyArray policies)) \<Rightarrow>
          (case mapPolicies policies of Inl error \<Rightarrow> [] | Inr mappedPolicies \<Rightarrow> mappedPolicies))"

text \<open>
  \<^verbatim>\<open>getSectionName\<close>: \<^verbatim>\<open>sectionNames[section] || `Section ${section}`\<close>. The key of the
  property read is \<^verbatim>\<open>ToString(section)\<close>. (A key that names a member of
  \<^verbatim>\<open>Object.prototype\<close> would read that member; no call below passes one.)
\<close>

definition getSectionName :: "jsval \<Rightarrow> string" where
  "getSectionName section =
     (let key = toStringJS section
      in if key = ''1'' then ''Organizational Identity & Values''
         else if key = ''2'' then ''Governance & Elections''
         else if key = ''3'' then ''Operations, Staff & Finance''
         else ''Section '' @ key)"

text \<open>The search filter of \<^verbatim>\<open>renderSections\<close>.\<close>

text \<open>\<^verbatim>\<open>(v || '').toLowerCase()\<close>: a truthy value that is no string has no such method.\<close>

definition lowerField :: "jsval \<Rightarrow> jserror + string" where
  "lowerField v =
     (case orElse v (JString []) of
        JString s \<Rightarrow> Inr (toLowerCase s)
      | _ \<Rightarrow> Inl (TypeError ''(intermediate value).toLowerCase is not a function''))"

text \<open>The predicate of the filter; \<^verbatim>\<open>||\<close> evaluates its right operand only when the left is false.\<close>

definition matchesSearch :: "string \<Rightarrow> item \<Rightarrow> jserror + bool" where
  "matchesSearch searchTerm item =
     (case lowerField (i_name item) of
        Inl e \<Rightarrow> Inl e
      | Inr name \<Rightarrow>
          if includesStr name (toLowerCase searchTerm) then Inr True
          else (case lowerField (i_policyId item) of
                  Inl e \<Rightarrow> Inl e
                | Inr policyId \<Rightarrow>
                    if includesStr policyId (toLowerCase searchTerm) then Inr True
                    else (case lowerField (i_sectionName item) of
                            Inl e \<Rightarrow> Inl e
                          | Inr sectionName \<Rightarrow>
                              Inr (includesStr sectionName (toLowerCase searchTerm)))))"

text \<open>\<^verbatim>\<open>Array.prototype.filter\<close> with a predicate that may throw.\<close>

fun filterArray :: "('a \<Rightarrow> jserror + bool) \<Rightarrow> 'a list \<Rightarrow> jserror + 'a list" where
  "filterArray pred [] = Inr []"
| "filterArray pred (x # xs) =
     (case pred x of
        Inl e \<Rightarrow> Inl e
      | Inr keep \<Rightarrow>
          (case filterArray pred xs of
             Inl e \<Rightarrow> Inl e
           | Inr ys \<Rightarrow> Inr (if keep then x # ys else ys)))"

text \<open>\<^verbatim>\<open>let filteredItems = items; if (searchTerm !== '') { filteredItems = items.filter(...) }\<close>\<close>

definition filterBySearchTerm :: "string \<Rightarrow> item list \<Rightarrow> jserror + item list" where
  "filterBySearchTerm searchTerm items =
     (if searchTerm \<noteq> [] then filterArray (matchesSearch searchTerm) items else Inr items)"

section \<open>The search filter, as the specification words it\<close>

text \<open>The text of a field: the string, or \<^verbatim>\<open>''\<close> for a missing one.\<close>

definition textOf :: "jsval \<Rightarrow> string" where
  "textOf v = (case v of JString s \<Rightarrow> s | _ \<Rightarrow> [])"

text \<open>
  \<open>q\<close> occurs in the field as a substring, letter case ignored: some run of the field
  equals \<open>q\<close> once both are lowered.
\<close>

definition containsIgnoringCase :: "string \<Rightarrow> string \<Rightarrow> bool" where
  "containsIgnoringCase field q =
     (\<exists>pre mid post. field = pre @ mid @ post \<and> toLowerCase mid = toLowerCase q)"

text \<open>The items of a query: name, identifier or section name contains it.\<close>

definition matchesQuery :: "string \<Rightarrow> item \<Rightarrow> bool" where
  "matchesQuery q it =
     (containsIgnoringCase (textOf (i_name it)) q \<or>
      containsIgnoringCase (textOf (i_policyId it)) q \<or>
      containsIgnoringCase (textOf (i_sectionName it)) q)"

text \<open>The three fields the filter reads are strings or missing.\<close>

definition searchableFields :: "item \<Rightarrow> bool" where
  "searchableFields it =
     (stringOrMissing (i_name it) \<and> stringOrMissing (i_policyId it) \<and> stringOrMissing (i_sectionName it))"


text \<open>An item for the examples, as the listing builds it for a policy of section \<open>key\<close>.\<close>

definition exampleItem :: "string \<Rightarrow> string \<Rightarrow> string \<Rightarrow> item" where
  "exampleItem policyId name key =
     \<lparr>i_id = JString (''u-'' @ policyId), i_policyId = JString policyId, i_name = JString name,
      i_section = JString key, i_sectionName = JString (getSectionName (JString key))\<rparr>"

section \<open>Statuses of the API client\<close>

text \<open>A status that is not 2xx, not 404 and below 500.\<close>

definition otherFailure :: "nat \<Rightarrow> bool" where
  "otherFailure status = (\<not> (200 \<le> status \<and> status \<le> 299) \<and> status \<noteq> 404 \<and> status < 500)"

section \<open>The listing page (public/policies.js)\<close>

text \<open>The three sections of \<^verbatim>\<open>renderSections\<close>, and a section with its items.\<close>

record sectionInfo =
  s_id :: int
  s_title :: string
  s_sectionKey :: string

record sectionWithItems = sectionInfo +
  s_items :: "item list"

definition sections :: "sectionInfo list" where
  "sections =
     [\<lparr>s_id = 1, s_title = getSectionName (JString ''1''), s_sectionKey = ''1''\<rparr>,
      \<lparr>s_id = 2, s_title = getSectionName (JString ''2''), s_sectionKey = ''2''\<rparr>,
      \<lparr>s_id = 3, s_title = getSectionName (JString ''3''), s_sectionKey = ''3''\<rparr>]"

text \<open>\<^verbatim>\<open>{ ...section, items: items }\<close>\<close>

definition withItems :: "sectionInfo \<Rightarrow> item list \<Rightarrow> sectionWithItems" where
  "withItems section items =
     \<lparr>s_id = s_id section, s_title = s_title section, s_sectionKey = s_sectionKey section,
      s_items = items\<rparr>"

text \<open>
  A section element of the page, as \<^verbatim>\<open>createSectionElement\<close> builds it: the attribute
  \<^verbatim>\<open>data-section-id\<close>, the title, whether the arrow and the content carry the class
  \<^verbatim>\<open>open\<close>, and the cards (none: the text "No items in this section").
\<close>

record sectionEl =
  e_sectionId :: int
  e_title :: string
  e_arrowOpen :: bool
  e_contentOpen :: bool
  e_cards :: "item list"

text \<open>
  The state of the page: the module variables \<^verbatim>\<open>openSections\<close>, \<^verbatim>\<open>searchTerm\<close> and
  \<^verbatim>\<open>currentPolicyIds\<close> (a \<^verbatim>\<open>Set\<close>: its elements in insertion order, no element twice); of
  the document, whether the element \<^verbatim>\<open>sectionsContainer\<close> exists, its section elements,
  whether it shows "No results found", and the text of the notification element if there
  is one; and two records of what was done, the calls of \<^verbatim>\<open>showNewPoliciesNotification\<close> with
  their counts and the requests sent (\<open>Some name\<close>: the approved policies of the section
  \<open>name\<close>; \<open>None\<close>: all approved policies).
\<close>

record page =
  openSections :: "int list"
  searchTerm :: string
  currentPolicyIds :: "jsval list"
  hasContainer :: bool
  containerSections :: "sectionEl list"
  containerNoResults :: bool
  notification :: "string option"
  notificationsShown :: "nat list"
  fetchLog :: "string option list"

text \<open>\<^verbatim>\<open>Set.prototype.add\<close>\<close>

definition setAdd :: "jsval \<Rightarrow> jsval list \<Rightarrow> jsval list" where
  "setAdd v s = (if v \<in> set s then s else s @ [v])"

text \<open>The item of a policy in the per-section path.\<close>

definition sectionItem :: "sectionInfo \<Rightarrow> policy \<Rightarrow> item" where
  "sectionItem section policy =
     \<lparr>i_id = p_id policy,
      i_policyId = orElse (p_policyId policy) (p_id policy),
      i_name = orElse (orElse (p_name policy) (p_policyName policy)) (JString ''Untitled''),
      i_section = JString (s_sectionKey section),
      i_sectionName = JString (s_title section)\<rparr>"

text \<open>The search filter, then the sort; both can throw.\<close>

definition filterAndSort ::
  "(string \<Rightarrow> string \<Rightarrow> int) \<Rightarrow> string \<Rightarrow> item list \<Rightarrow> jserror + item list" where
  "filterAndSort lc term items =
     (case filterBySearchTerm term items of
        Inl e \<Rightarrow> Inl e
      | Inr filteredItems \<Rightarrow> sortItemsByPolicyNumber lc filteredItems)"

text \<open>
  The callback of \<^verbatim>\<open>sections.map\<close>, for one section: its result and whether its \<^verbatim>\<open>catch\<close>
  ran (which sets \<^verbatim>\<open>useFallback\<close>). \<open>net\<close> is what \<^verbatim>\<open>fetch\<close> does to each request.
\<close>

definition fetchSection ::
  "(string \<Rightarrow> string \<Rightarrow> int) \<Rightarrow> string \<Rightarrow> (string option \<Rightarrow> listing jsonBody fetchOutcome) \<Rightarrow>
   sectionInfo \<Rightarrow> sectionWithItems \<times> bool" where
  "fetchSection lc term net section =
     (let policies = getApprovedPolicies (net (Some (s_title section)));
          items = map (sectionItem section) policies
      in case filterAndSort lc term items of
           Inr filteredItems \<Rightarrow> (withItems section filteredItems, False)
         | Inl error \<Rightarrow> (withItems section [], True))"

text \<open>
  The fallback. \<^verbatim>\<open>sectionsMap\<close> is a plain object with the keys '1', '2', '3', here the
  list of its values in key order. \<^verbatim>\<open>sectionsMap[section]\<close> reads the property named
  \<^verbatim>\<open>ToString(section)\<close>: an own entry, or a member inherited from \<^verbatim>\<open>Object.prototype\<close> (truthy,
  and without \<^verbatim>\<open>items\<close>, so that \<^verbatim>\<open>.items.push\<close> throws), or \<^verbatim>\<open>undefined\<close>.
\<close>

definition objectPrototypeNames :: "string list" where
  "objectPrototypeNames =
     [''constructor'', ''__defineGetter__'', ''__defineSetter__'', ''hasOwnProperty'',
      ''__lookupGetter__'', ''__lookupSetter__'', ''isPrototypeOf'', ''propertyIsEnumerable'',
      ''toString'', ''valueOf'', ''__proto__'', ''toLocaleString'']"

definition fallbackItem :: "policy \<Rightarrow> jsval \<Rightarrow> item" where
  "fallbackItem policy section =
     \<lparr>i_id = p_id policy,
      i_policyId = orElse (p_policyId policy) (p_id policy),
      i_name = orElse (orElse (p_name policy) (p_policyName policy)) (JString ''Untitled''),
      i_section = section,
      i_sectionName = JString (getSectionName section)\<rparr>"

definition pushItem :: "string \<Rightarrow> item \<Rightarrow> sectionWithItems list \<Rightarrow> sectionWithItems list" where
  "pushItem key item sectionsMap =
     map (\<lambda>entry. if s_sectionKey entry = key then entry\<lparr>s_items := s_items entry @ [item]\<rparr> else entry)
       sectionsMap"

text \<open>\<^verbatim>\<open>allPolicies.forEach(policy => { ... })\<close>\<close>

fun groupPolicies :: "policy list \<Rightarrow> sectionWithItems list \<Rightarrow> jserror + sectionWithItems list" where
  "groupPolicies [] sectionsMap = Inr sectionsMap"
| "groupPolicies (policy # rest) sectionsMap =
     (let section = orElse (p_section policy) (JString ''1'');
          key = toStringJS section
      in if key \<in> set (map s_sectionKey sectionsMap)
         then groupPolicies rest (pushItem key (fallbackItem policy section) sectionsMap)
         else if key \<in> set objectPrototypeNames
         then Inl (TypeError ''Cannot read properties of undefined'')
         else groupPolicies rest sectionsMap)"

text \<open>\<^verbatim>\<open>Object.values(sectionsMap).map(section => { ... })\<close>\<close>

fun filterAndSortSections ::
  "(string \<Rightarrow> string \<Rightarrow> int) \<Rightarrow> string \<Rightarrow> sectionWithItems list \<Rightarrow> jserror + sectionWithItems list" where
  "filterAndSortSections lc term [] = Inr []"
| "filterAndSortSections lc term (section # rest) =
     (case filterAndSort lc term (s_items section) of
        Inl e \<Rightarrow> Inl e
      | Inr filteredItems \<Rightarrow>
          (case filterAndSortSections lc term rest of
             Inl e \<Rightarrow> Inl e
           | Inr done \<Rightarrow> Inr (section\<lparr>s_items := filteredItems\<rparr> # done)))"

text \<open>The \<^verbatim>\<open>try\<close> block of the fallback.\<close>

definition fallbackSections ::
  "(string \<Rightarrow> string \<Rightarrow> int) \<Rightarrow> string \<Rightarrow> (string option \<Rightarrow> listing jsonBody fetchOutcome) \<Rightarrow>
   jserror + sectionWithItems list" where
  "fallbackSections lc term net =
     (let allPolicies = getApprovedPolicies (net None);
          sectionsMap = map (\<lambda>section. withItems section []) sections
      in case groupPolicies allPolicies sectionsMap of
           Inl e \<Rightarrow> Inl e
         | Inr grouped \<Rightarrow> filterAndSortSections lc term grouped)"

text \<open>
  The two \<^verbatim>\<open>try\<close> blocks of \<^verbatim>\<open>renderSections\<close>: the sections with their items, and
  whether the fallback ran. (The callbacks catch their own errors, so \<^verbatim>\<open>Promise.all\<close> does
  not reject.) When the fallback throws, the results of the first block stay.
\<close>

definition loadSections ::
  "(string \<Rightarrow> string \<Rightarrow> int) \<Rightarrow> string \<Rightarrow> (string option \<Rightarrow> listing jsonBody fetchOutcome) \<Rightarrow>
   sectionWithItems list \<times> bool" where
  "loadSections lc term net =
     (let results = map (fetchSection lc term net) sections;
          sectionsWithItems = map fst results;
          useFallback = list_ex snd results
      in if useFallback then
           (case fallbackSections lc term net of
              Inr fallbackResult \<Rightarrow> (fallbackResult, True)
            | Inl error \<Rightarrow> (sectionsWithItems, True))
         else (sectionsWithItems, False))"

definition createSectionElement :: "int list \<Rightarrow> sectionWithItems \<Rightarrow> sectionEl" where
  "createSectionElement openSecs section =
     (let isOpen = (s_id section \<in> set openSecs)
      in \<lparr>e_sectionId = s_id section, e_title = s_title section, e_arrowOpen = isOpen,
          e_contentOpen = isOpen, e_cards = s_items section\<rparr>)"

text \<open>The identifiers \<^verbatim>\<open>renderSections\<close> records: \<^verbatim>\<open>item.policyId || item.id\<close> of every item.\<close>

definition recordedIds :: "sectionWithItems list \<Rightarrow> jsval list" where
  "recordedIds sectionsWithItems =
     fold setAdd
       (concat (map (\<lambda>section. map (\<lambda>item. orElse (i_policyId item) (i_id item)) (s_items section))
          sectionsWithItems)) []"

text \<open>
  \<^verbatim>\<open>renderSections\<close>. Every call of \<^verbatim>\<open>getApprovedPolicies\<close> sends one request; they are
  recorded in the order of the calls.
\<close>

definition renderSections ::
  "(string \<Rightarrow> string \<Rightarrow> int) \<Rightarrow> (string option \<Rightarrow> listing jsonBody fetchOutcome) \<Rightarrow> page \<Rightarrow> page" where
  "renderSections lc net st =
     (if \<not> hasContainer st then st
      else
        (let (sectionsWithItems, useFallback) = loadSections lc (searchTerm st) net;
             shown = filter (\<lambda>section. s_items section \<noteq> [] \<or> searchTerm st = []) sectionsWithItems;
             children = map (createSectionElement (openSections st)) shown
         in st\<lparr>containerSections := children,
               containerNoResults := (children = []),
               currentPolicyIds := recordedIds sectionsWithItems,
               fetchLog := fetchLog st @ map (\<lambda>section. Some (s_title section)) sections
                             @ (if useFallback then [None] else [])\<rparr>))"

text \<open>\<^verbatim>\<open>toggleSection\<close>. \<^verbatim>\<open>querySelector\<close> finds the first element with the attribute.\<close>

fun setOpenFirst :: "int \<Rightarrow> bool \<Rightarrow> sectionEl list \<Rightarrow> sectionEl list" where
  "setOpenFirst sectionId isOpen [] = []"
| "setOpenFirst sectionId isOpen (el # els) =
     (if e_sectionId el = sectionId
      then el\<lparr>e_arrowOpen := isOpen, e_contentOpen := isOpen\<rparr> # els
      else el # setOpenFirst sectionId isOpen els)"

definition toggleSection :: "int \<Rightarrow> page \<Rightarrow> page" where
  "toggleSection sectionId st =
     (let toggled = (if sectionId \<in> set (openSections st)
                     then remove1 sectionId (openSections st)
                     else openSections st @ [sectionId]);
          st1 = st\<lparr>openSections := toggled\<rparr>
      in if \<not> hasContainer st then st1
         else st1\<lparr>containerSections :=
                    setOpenFirst sectionId (sectionId \<in> set toggled) (containerSections st)\<rparr>)"

text \<open>\<^verbatim>\<open>handleSearch\<close>\<close>

definition handleSearch ::
  "(string \<Rightarrow> string \<Rightarrow> int) \<Rightarrow> (string option \<Rightarrow> listing jsonBody fetchOutcome) \<Rightarrow> string \<Rightarrow> page \<Rightarrow> page" where
  "handleSearch lc net typed st =
     renderSections lc net
       (st\<lparr>searchTerm := typed, openSections := (if typed \<noteq> [] then [1, 2, 3] else openSections st)\<rparr>)"

text \<open>
  \<^verbatim>\<open>showNewPoliciesNotification\<close>: an earlier notification element is removed and a new one
  added, with this text (after a sparkle sign, left out here) and a close button. (The
  element removes itself after five seconds; time is not modelled.)
\<close>

definition notificationText :: "nat \<Rightarrow> string" where
  "notificationText newCount =
     natToString newCount @ '' new '' @ (if newCount = 1 then ''policy'' else ''policies'') @ '' ''
       @ (if newCount = 1 then ''has'' else ''have'') @ '' been approved!''"

definition showNewPoliciesNotification :: "nat \<Rightarrow> page \<Rightarrow> page" where
  "showNewPoliciesNotification newCount st =
     st\<lparr>notification := Some (notificationText newCount),
        notificationsShown := notificationsShown st @ [newCount]\<rparr>"

text \<open>The identifiers a check computes from the fetched list: \<^verbatim>\<open>policy.policyId || policy.id\<close>.\<close>

definition fetchedIds :: "policy list \<Rightarrow> jsval list" where
  "fetchedIds allPolicies =
     fold setAdd (map (\<lambda>policy. orElse (p_policyId policy) (p_id policy)) allPolicies) []"

text \<open>
  \<^verbatim>\<open>checkForNewPolicies\<close>. \<open>checked\<close> is what \<^verbatim>\<open>fetch\<close> does to the request of the check,
  \<open>net\<close> what it does to the requests of the re-rendering.
\<close>

definition checkForNewPolicies ::
  "(string \<Rightarrow> string \<Rightarrow> int) \<Rightarrow> listing jsonBody fetchOutcome \<Rightarrow>
   (string option \<Rightarrow> listing jsonBody fetchOutcome) \<Rightarrow> page \<Rightarrow> page" where
  "checkForNewPolicies lc checked net st =
     (if \<not> hasContainer st then st
      else
        (let allPolicies = getApprovedPolicies checked;
             st1 = st\<lparr>fetchLog := fetchLog st @ [None]\<rparr>;
             newPolicyIds = fetchedIds allPolicies
         in if length newPolicyIds > length (currentPolicyIds st1) then
              (let newCount = length newPolicyIds - length (currentPolicyIds st1)
               in renderSections lc net (showNewPoliciesNotification newCount st1))
            else st1))"

section \<open>Example data\<close>

text \<open>
  An approved policy as the API sends it, a response that lists policies, and a server
  that holds a list of approved policies and answers a request for one section with the
  policies of that section.
\<close>

definition approvedPolicy :: "string \<Rightarrow> string \<Rightarrow> string \<Rightarrow> jsval \<Rightarrow> apiPolicy" where
  "approvedPolicy uuid policyId name section =
     \<lparr>r_id = JString uuid, r_policy_id = JString policyId, r_policy_name = JString name,
      r_section = section, r_policy_content = JUndefined, r_status = JString ''approved'',
      r_created_at = JUndefined, r_updated_at = JUndefined, r_created_by = JUndefined,
      r_updated_by = JUndefined\<rparr>"

definition okResponse :: "apiPolicy list \<Rightarrow> listing jsonBody fetchOutcome" where
  "okResponse policies = Response 200 (JsonBody JUndefined (PolicyArray (map Some policies)))"

definition serving :: "apiPolicy list \<Rightarrow> string option \<Rightarrow> listing jsonBody fetchOutcome" where
  "serving policies request =
     (case request of
        None \<Rightarrow> okResponse policies
      | Some name \<Rightarrow> okResponse (filter (\<lambda>p. getSectionName (r_section p) = name) policies))"

text \<open>The page as the module starts it, with the container in the document.\<close>

definition initialPage :: page where
  "initialPage =
     \<lparr>openSections = [1, 2, 3], searchTerm = [], currentPolicyIds = [], hasContainer = True,
      containerSections = [], containerNoResults = False, notification = None,
      notificationsShown = [], fetchLog = []\<rparr>"

text \<open>Four approved policies, three of them with "1.1" in the identifier.\<close>

definition fourPolicies :: "apiPolicy list" where
  "fourPolicies =
     [approvedPolicy ''u1'' ''1.1.1'' ''Mission'' (JString ''1''),
      approvedPolicy ''u2'' ''1.1.2'' ''Values'' (JString ''1''),
      approvedPolicy ''u3'' ''2.1.1'' ''Elections'' (JString ''2''),
      approvedPolicy ''u4'' ''3.2.1'' ''Budget'' (JString ''3'')]"

text \<open>The page after the first rendering, with the four policies on the server.\<close>

definition renderedPage :: page where
  "renderedPage = renderSections codeUnitCompare (serving fourPolicies) initialPage"

text \<open>
  The page rendered while the server held the first three policies; the policies of a
  server on which "2.1.1" was then withdrawn and "3.2.1" approved; and the page after the
  search term "1.1" was typed, with all four policies on the server.
\<close>

definition threeRecorded :: page where
  "threeRecorded = renderSections codeUnitCompare (serving (take 3 fourPolicies)) initialPage"

definition swappedPolicies :: "apiPolicy list" where
  "swappedPolicies = [fourPolicies ! 0, fourPolicies ! 1, fourPolicies ! 3]"

definition searchedPage :: page where
  "searchedPage = handleSearch codeUnitCompare (serving fourPolicies) ''1.1'' initialPage"

text \<open>
  A server on which the request for the second section fails with status 500. And a
  server whose answer for the first section holds two policies with numbers for
  identifiers (the sort throws on them), and whose full list holds a policy without
  section, one of an unknown section "4" and one whose section is the number 2.
\<close>

definition sectionTwoDown :: "string option \<Rightarrow> listing jsonBody fetchOutcome" where
  "sectionTwoDown = (serving fourPolicies)(Some ''Governance & Elections'' := Response 500 NullBody)"

definition numericIdPolicy :: "int \<Rightarrow> apiPolicy" where
  "numericIdPolicy n = (approvedPolicy ''u0'' [] ''Numbered'' (JString ''1''))\<lparr>r_policy_id := JNumber n\<rparr>"

definition mixedPolicies :: "apiPolicy list" where
  "mixedPolicies =
     [approvedPolicy ''u1'' ''1.1.1'' ''Mission'' JUndefined,
      approvedPolicy ''u5'' ''4.1.1'' ''Archive'' (JString ''4''),
      approvedPolicy ''u3'' ''2.1.1'' ''Elections'' (JNumber 2)]"

definition numericIdServer :: "string option \<Rightarrow> listing jsonBody fetchOutcome" where
  "numericIdServer request =
     (case request of
        None \<Rightarrow> okResponse mixedPolicies
      | Some name \<Rightarrow>
          if name = ''Organizational Identity & Values''
          then okResponse [numericIdPolicy 11, numericIdPolicy 12]
          else okResponse [])"


section \<open>The grouping of the fallback, by each policy's own section\<close>

text \<open>
  The section of a policy in the fallback, \<^verbatim>\<open>policy.section || '1'\<close>, and the items of
  the policies whose section has the key \<open>key\<close>, in the order of the list.
\<close>

definition sectionOf :: "policy \<Rightarrow> jsval" where
  "sectionOf policy = orElse (p_section policy) (JString ''1'')"

definition groupOf :: "policy list \<Rightarrow> string \<Rightarrow> item list" where
  "groupOf allPolicies key =
     map (\<lambda>policy. fallbackItem policy (sectionOf policy))
       (filter (\<lambda>policy. toStringJS (sectionOf policy) = key) allPolicies)"

section \<open>Admin actions (admin/deletePolicy.js, admin/login.js, admin/profile.js)\<close>

text \<open>
  What an admin action can touch: the item \<^verbatim>\<open>accessToken\<close> of \<^verbatim>\<open>localStorage\<close> (\<open>None\<close>:
  no such item), the last assignment to \<^verbatim>\<open>window.location.href\<close> (\<open>None\<close>: none yet),
  the alerts shown and the requests sent, each with the bearer token of its header.
\<close>

datatype adminRequest =
    GetMe string
  | DeletePolicyRequest string string
  | ApprovePolicyRequest string string

record browser =
  accessToken :: "string option"
  location :: "string option"
  alerts :: "string list"
  requests :: "adminRequest list"

text \<open>\<^verbatim>\<open>alert(message)\<close>, \<^verbatim>\<open>window.location.href = url\<close>, \<^verbatim>\<open>err.message\<close>, \<^verbatim>\<open>response.ok\<close>.\<close>

definition alert :: "string \<Rightarrow> browser \<Rightarrow> browser" where
  "alert message b = b\<lparr>alerts := alerts b @ [message]\<rparr>"

definition navigate :: "string \<Rightarrow> browser \<Rightarrow> browser" where
  "navigate url b = b\<lparr>location := Some url\<rparr>"

fun messageOf :: "jserror \<Rightarrow> string" where
  "messageOf (Error m) = m"
| "messageOf (TypeError m) = m"
| "messageOf (SyntaxError m) = m"

definition ok :: "nat \<Rightarrow> bool" where
  "ok status = (200 \<le> status \<and> status \<le> 299)"

text \<open>\<^verbatim>\<open>if (onSuccess) { onSuccess(); }\<close>: the callback, when one was passed.\<close>

definition callOnSuccess :: "(browser \<Rightarrow> browser) option \<Rightarrow> browser \<Rightarrow> browser" where
  "callOnSuccess onSuccess b = (case onSuccess of None \<Rightarrow> b | Some callback \<Rightarrow> callback b)"

text \<open>
  \<^verbatim>\<open>deletePolicy\<close>. \<open>me\<close> is what \<^verbatim>\<open>fetch\<close> does to the request for the user (the content
  of its body: \<^verbatim>\<open>userData.role\<close>), \<open>confirmed\<close> the answer to the confirmation dialog, and
  \<open>deleted\<close> what \<^verbatim>\<open>fetch\<close> does to the DELETE request (its body as text). A token that is
  missing or empty is falsy.
\<close>

definition deletePolicyRequest ::
  "string \<Rightarrow> string \<Rightarrow> (browser \<Rightarrow> browser) option \<Rightarrow> string fetchOutcome \<Rightarrow> browser \<Rightarrow> browser" where
  "deletePolicyRequest policyId token onSuccess deleted b0 =
     (let b = b0\<lparr>requests := requests b0 @ [DeletePolicyRequest policyId token]\<rparr>
      in case deleted of
           Rejected err \<Rightarrow>
             alert (''Failed to delete policy. Please try again.'' @ [CHR 0x0A, CHR 0x0A] @ ''Error: ''
                      @ messageOf err) b
         | Response status errorText \<Rightarrow>
             if \<not> ok status then
               (if status = 401 then
                  navigate ''admin/login.html'' (alert ''Your session has expired. Please login again.'' b)
                else if status = 403 then
                  alert ''Sorry, only admin is allowed to delete policy.'' b
                else if status = 404 then
                  callOnSuccess onSuccess
                    (alert ''Policy not found. It may have already been deleted.'' b)
                else
                  alert (''Failed to delete policy. Please try again.'' @ [CHR 0x0A, CHR 0x0A] @ ''Error: ''
                           @ ''Failed to delete policy: '' @ natToString status @ '' - '' @ errorText) b)
             else callOnSuccess onSuccess (alert ''Policy deleted successfully.'' b))"

definition deletePolicy ::
  "string \<Rightarrow> string \<Rightarrow> (browser \<Rightarrow> browser) option \<Rightarrow> jsval jsonBody fetchOutcome \<Rightarrow> bool \<Rightarrow>
   string fetchOutcome \<Rightarrow> browser \<Rightarrow> browser" where
  "deletePolicy policyId policyName onSuccess me confirmed deleted b0 =
     (case accessToken b0 of
        None \<Rightarrow> navigate ''admin/login.html'' (alert ''Please login to delete policies.'' b0)
      | Some token \<Rightarrow>
          if token = [] then navigate ''admin/login.html'' (alert ''Please login to delete policies.'' b0)
          else
            (let b = b0\<lparr>requests := requests b0 @ [GetMe token]\<rparr>;
                 failed = alert ''Failed to verify permissions. Please try again.'' b
             in case me of
                  Rejected err \<Rightarrow> failed
                | Response status body \<Rightarrow>
                    if \<not> ok status then
                      (if status = 401 then
                         navigate ''admin/login.html''
                           (alert ''Your session has expired. Please login again.'' b)
                       else failed)
                    else
                      (case body of
                         Unparsable err \<Rightarrow> failed
                       | NullBody \<Rightarrow> failed
                       | JsonBody detail userRole \<Rightarrow>
                           if userRole \<noteq> JString ''admin'' then
                             alert ''Sorry, only admin is allowed to delete policy.'' b
                           else if \<not> confirmed then b
                           else deletePolicyRequest policyId token onSuccess deleted b)))"

text \<open>
  \<^verbatim>\<open>approvePolicy\<close>. \<open>approved\<close> is what \<^verbatim>\<open>fetch\<close> does to the PUT request: the status text
  and the JSON body of the response.
\<close>

definition approvePolicy ::
  "string \<Rightarrow> (browser \<Rightarrow> browser) option \<Rightarrow> bool \<Rightarrow> (string \<times> unit jsonBody) fetchOutcome \<Rightarrow>
   browser \<Rightarrow> browser" where
  "approvePolicy policyId onSuccess confirmed approved b0 =
     (case accessToken b0 of
        None \<Rightarrow> navigate ''admin/login.html'' (alert ''Please login to approve policies.'' b0)
      | Some token \<Rightarrow>
          if token = [] then navigate ''admin/login.html'' (alert ''Please login to approve policies.'' b0)
          else if \<not> confirmed then b0
          else
            (let b = b0\<lparr>requests := requests b0 @ [ApprovePolicyRequest policyId token]\<rparr>
             in case approved of
                  Rejected err \<Rightarrow>
                    alert (''Failed to approve policy. Please try again.'' @ [CHR 0x0A, CHR 0x0A] @ ''Error: ''
                             @ messageOf err) b
                | Response status (statusText, body) \<Rightarrow>
                    if \<not> ok status then
                      (if status = 401 then
                         navigate ''admin/login.html''
                           (alert ''Your session has expired. Please login again.'' b)
                       else if status = 403 then alert ''Only admins can approve policies.'' b
                       else if status = 404 then
                         callOnSuccess onSuccess
                           (alert ''Policy not found. It may have already been deleted.'' b)
                       else
                         (case body of
                            JsonBody detail x \<Rightarrow>
                              alert (if truthy detail then toStringJS detail
                                     else ''Failed to approve policy.'') b
                          | _ \<Rightarrow>
                              alert (''Failed to approve policy: '' @ natToString status @ '' ''
                                       @ statusText) b))
                    else callOnSuccess onSuccess (alert ''Policy approved successfully!'' b)))"

text \<open>\<^verbatim>\<open>handleLogout\<close>, the one place that removes the token.\<close>

definition handleLogout :: "bool \<Rightarrow> browser \<Rightarrow> browser" where
  "handleLogout confirmed b =
     (if confirmed then navigate ''login.html'' (b\<lparr>accessToken := None\<rparr>) else b)"

text \<open>A browser with a token stored, on the policies page of the admin area.\<close>

definition loggedIn :: browser where
  "loggedIn = \<lparr>accessToken = Some ''t0k3n'', location = Some ''policies.html'', alerts = [], requests = []\<rparr>"

definition adminUser :: "jsval jsonBody fetchOutcome" where
  "adminUser = Response 200 (JsonBody JUndefined (JString ''admin''))"

section \<open>The suggestion form (public/bylaws.js)\<close>

text \<open>
  The page with the form: the values of the three controls, the control that has the
  focus, the alerts shown, the requests that \<^verbatim>\<open>apiRequest\<close> was called with (endpoint,
  method, and the fields of the object that is the body), and whether the success message
  is shown.
\<close>

record apiCall =
  c_endpoint :: string
  c_method :: string
  c_body :: "(string \<times> string) list"

record suggestionPage =
  policySelect :: string
  suggestionText :: string
  emailInput :: string
  focused :: "string option"
  shownAlerts :: "string list"
  sentCalls :: "apiCall list"
  successMessageShown :: bool

text \<open>The call of \<^verbatim>\<open>apiRequest\<close> in the handler, from the two values it is built of.\<close>

definition suggestionCall :: "string \<Rightarrow> string \<Rightarrow> apiCall" where
  "suggestionCall selectedPolicyId suggestion =
     \<lparr>c_endpoint = ''/api/suggestions'', c_method = ''POST'',
      c_body = [(''policy_id'', selectedPolicyId), (''suggestion'', suggestion), (''status'', ''pending'')]\<rparr>"

definition reject :: "string \<Rightarrow> string \<Rightarrow> suggestionPage \<Rightarrow> suggestionPage" where
  "reject message control p = p\<lparr>shownAlerts := shownAlerts p @ [message], focused := Some control\<rparr>"

text \<open>
  The submit handler. \<open>outcome\<close> is what \<^verbatim>\<open>fetch\<close> does to the request, if one is sent.
\<close>

definition submitSuggestion :: "'p jsonBody fetchOutcome \<Rightarrow> suggestionPage \<Rightarrow> suggestionPage" where
  "submitSuggestion outcome p =
     (let selectedPolicyId = policySelect p;
          suggestion = trim (suggestionText p);
          email = trim (emailInput p)
      in if email = [] then reject ''Please enter your UAlberta email address'' ''emailInput'' p
         else if selectedPolicyId = [] then reject ''Please select a policy to refer to.'' ''policySelect'' p
         else if suggestion = [] then reject ''Please enter your suggestion.'' ''suggestionText'' p
         else if \<not> includesStr (emailInput p) ''@ualberta.ca''
         then reject ''Please enter a valid UAlberta email address'' ''emailInput'' p
         else
           (let p1 = p\<lparr>sentCalls := sentCalls p @ [suggestionCall selectedPolicyId suggestion]\<rparr>
            in case apiRequest outcome of
                 Inr response \<Rightarrow>
                   p1\<lparr>shownAlerts := shownAlerts p1 @
                         [''Thank you for your suggestion!'' @ [CHR 0x0A, CHR 0x0A]
                            @ ''Your feedback has been submitted successfully.''],
                      policySelect := [], suggestionText := [], emailInput := [],
                      successMessageShown := True\<rparr>
               | Inl error \<Rightarrow>
                   p1\<lparr>shownAlerts := shownAlerts p1 @
                         [''Failed to submit suggestion. Please try again later.'']\<rparr>))"

text \<open>The four validation messages.\<close>

definition validationMessages :: "string list" where
  "validationMessages =
     [''Please enter your UAlberta email address'', ''Please select a policy to refer to.'',
      ''Please enter your suggestion.'', ''Please enter a valid UAlberta email address'']"

text \<open>A filled form, with an address of another domain and with a university address.\<close>

definition filledForm :: "string \<Rightarrow> suggestionPage" where
  "filledForm email =
     \<lparr>policySelect = ''1.1.1'', suggestionText = ''  Please clarify section 2.  '',
      emailInput = email, focused = None, shownAlerts = [], sentCalls = [],
      successMessageShown = False\<rparr>"

text \<open>The alert after a successful submission.\<close>

definition thanksMessage :: string where
  "thanksMessage = ''Thank you for your suggestion!'' @ [CHR 0x0A, CHR 0x0A]
                     @ ''Your feedback has been submitted successfully.''"

section \<open>The identifier-aware sorter orders by segments\<close>







subsection \<open>The code's split and parse against the specification's\<close>








lemma char_of_nat: "c = char_of (of_char c :: nat)"
  by simp









































section \<open>The search filter keeps the matching items\<close>

lemma startsWith_iff: "startsWith s q \<longleftrightarrow> (\<exists>post. s = q @ post)"
  by (induction s q rule: startsWith.induct) auto

lemma includesStr_iff: "includesStr s q \<longleftrightarrow> (\<exists>pre post. s = pre @ q @ post)"
proof (induction s)
  case Nil
  then show ?case by auto
next
  case (Cons c cs)
  show ?case
  proof
    assume "includesStr (c # cs) q"
    then consider "startsWith (c # cs) q" | "includesStr cs q" by auto
    then show "\<exists>pre post. c # cs = pre @ q @ post"
    proof cases
      case 1
      then obtain post where "c # cs = q @ post" by (auto simp: startsWith_iff)
      then have "c # cs = [] @ q @ post" by simp
      then show ?thesis by blast
    next
      case 2
      then obtain pre post where "cs = pre @ q @ post" using Cons.IH by auto
      then have "c # cs = (c # pre) @ q @ post" by simp
      then show ?thesis by blast
    qed
  next
    assume "\<exists>pre post. c # cs = pre @ q @ post"
    then obtain pre post where eq: "c # cs = pre @ q @ post" by auto
    show "includesStr (c # cs) q"
    proof (cases pre)
      case Nil
      with eq have "startsWith (c # cs) q" by (auto simp: startsWith_iff)
      then show ?thesis by simp
    next
      case (Cons p ps)
      with eq have "cs = ps @ q @ post" by simp
      then have "includesStr cs q" using Cons.IH by blast
      then show ?thesis by simp
    qed
  qed
qed

lemma map_eq_appendE:
  assumes "map f xs = ys @ zs"
  obtains us vs where "xs = us @ vs" "map f us = ys" "map f vs = zs"
proof -
  from assms have "\<exists>us vs. xs = us @ vs \<and> ys = map f us \<and> zs = map f vs"
    by (simp only: map_eq_append_conv)
  then obtain us vs where "xs = us @ vs" "ys = map f us" "zs = map f vs" by (elim exE conjE)
  then show thesis using that [of us vs] by simp
qed

lemma includes_lower_iff:
  "includesStr (toLowerCase s) (toLowerCase q) \<longleftrightarrow> containsIgnoringCase s q"
proof
  assume "includesStr (toLowerCase s) (toLowerCase q)"
  then obtain pre post where "map lowerChar s = pre @ (map lowerChar q @ post)"
    unfolding includesStr_iff toLowerCase_def by (elim exE)
  then obtain a r where s1: "s = a @ r" and s2: "map lowerChar r = map lowerChar q @ post"
    by (rule map_eq_appendE)
  from s2 obtain m b where r: "r = m @ b" and m: "map lowerChar m = map lowerChar q"
    by (rule map_eq_appendE)
  have "s = a @ m @ b" using s1 r by simp
  with m show "containsIgnoringCase s q"
    unfolding containsIgnoringCase_def toLowerCase_def by (intro exI [of _ a] exI [of _ m] exI [of _ b] conjI)
next
  assume "containsIgnoringCase s q"
  then obtain pre mid post where s: "s = pre @ mid @ post" and m: "map lowerChar mid = map lowerChar q"
    unfolding containsIgnoringCase_def toLowerCase_def by (elim exE conjE)
  have "map lowerChar s = map lowerChar pre @ map lowerChar q @ map lowerChar post"
    unfolding s using m by simp
  then show "includesStr (toLowerCase s) (toLowerCase q)"
    unfolding includesStr_iff toLowerCase_def
    by (intro exI [of _ "map lowerChar pre"] exI [of _ "map lowerChar post"])
qed

lemma lowerField_ok: "stringOrMissing v \<Longrightarrow> lowerField v = Inr (toLowerCase (textOf v))"
  by (cases v) (auto simp: stringOrMissing_def lowerField_def orElse_def textOf_def toLowerCase_def)

lemma matchesSearch_ok:
  "searchableFields it \<Longrightarrow> matchesSearch q it = Inr (matchesQuery q it)"
  by (simp add: searchableFields_def matchesSearch_def lowerField_ok matchesQuery_def includes_lower_iff)

lemma filterArray_ok:
  "\<forall>x\<in>set xs. pred x = Inr (P x) \<Longrightarrow> filterArray pred xs = Inr (filter P xs)"
  by (induction xs) auto

lemma containsIgnoringCase_empty: "containsIgnoringCase s []"
  unfolding containsIgnoringCase_def toLowerCase_def by (intro exI [of _ "[]"] exI [of _ s]) simp
lemmas search_eval = filterBySearchTerm_def matchesSearch_def lowerField_def orElse_def itemWithId_def
  toLowerCase_def lowerChar_def

text \<open>
  Claim C5 (amended). For items whose name, identifier and section name are strings or
  missing, the search filter returns, in their order, exactly the items one of whose three
  fields contains the query as a substring, letter case ignored; the empty query returns
  every item in order. Query "1.1" on the identifiers "1.1.1", "1.10.1", "2.1.1" keeps
  all three: "2.1.1" contains "1.1" as well.
\<close>

theorem search_filter_keeps_matches:
  assumes "\<forall>it\<in>set items. searchableFields it"
  shows "filterBySearchTerm q items = Inr (filter (matchesQuery q) items) \<and>
         filterBySearchTerm [] items = Inr items \<and>
         filterBySearchTerm ''1.1'' (map itemWithId [''1.1.1'', ''1.10.1'', ''2.1.1''])
           = Inr (map itemWithId [''1.1.1'', ''1.10.1'', ''2.1.1''])"
proof (intro conjI)
  show "filterBySearchTerm q items = Inr (filter (matchesQuery q) items)"
  proof (cases "q = []")
    case True
    then have "filter (matchesQuery q) items = items"
      by (simp add: matchesQuery_def containsIgnoringCase_empty)
    with True show ?thesis by (simp add: filterBySearchTerm_def)
  next
    case False
    then show ?thesis using assms
      by (simp add: filterBySearchTerm_def filterArray_ok matchesSearch_ok)
  qed
  show "filterBySearchTerm [] items = Inr items" by (simp add: filterBySearchTerm_def)
  show "filterBySearchTerm ''1.1'' (map itemWithId [''1.1.1'', ''1.10.1'', ''2.1.1''])
           = Inr (map itemWithId [''1.1.1'', ''1.10.1'', ''2.1.1''])"
    by (simp add: search_eval)
qed

text \<open>The theorem at three items and the query "GOV", which two of them match.\<close>

theorem search_filter_keeps_matches_witness:
  "searchableFields (exampleItem ''1.2.1'' ''Alpha'' ''1'') \<and>
   searchableFields (exampleItem ''2.1.1'' ''Beta'' ''2'') \<and>
   searchableFields (exampleItem ''3.1'' ''Governing rules'' ''3'') \<and>
   filterBySearchTerm ''GOV''
     [exampleItem ''1.2.1'' ''Alpha'' ''1'', exampleItem ''2.1.1'' ''Beta'' ''2'',
      exampleItem ''3.1'' ''Governing rules'' ''3'']
     = Inr [exampleItem ''2.1.1'' ''Beta'' ''2'', exampleItem ''3.1'' ''Governing rules'' ''3''] \<and>
   filter (matchesQuery ''GOV'')
     [exampleItem ''1.2.1'' ''Alpha'' ''1'', exampleItem ''2.1.1'' ''Beta'' ''2'',
      exampleItem ''3.1'' ''Governing rules'' ''3'']
     = [exampleItem ''2.1.1'' ''Beta'' ''2'', exampleItem ''3.1'' ''Governing rules'' ''3'']"
proof -
  let ?items = "[exampleItem ''1.2.1'' ''Alpha'' ''1'', exampleItem ''2.1.1'' ''Beta'' ''2'',
      exampleItem ''3.1'' ''Governing rules'' ''3'']"
  have fields: "searchableFields (exampleItem a b c)" for a b c
    by (simp add: searchableFields_def exampleItem_def stringOrMissing_def)
  then have all: "\<forall>it\<in>set ?items. searchableFields it" by simp
  have run: "filterBySearchTerm ''GOV'' ?items
      = Inr [exampleItem ''2.1.1'' ''Beta'' ''2'', exampleItem ''3.1'' ''Governing rules'' ''3'']"
    by code_simp
  from search_filter_keeps_matches [OF all, of "''GOV''"] run fields show ?thesis by simp
qed

text \<open>
  The claim's example fails: the query "1.1" does not leave out "2.1.1".
\<close>

theorem search_filter_example_counterexample:
  "filterBySearchTerm ''1.1'' (map itemWithId [''1.1.1'', ''1.10.1'', ''2.1.1''])
     = Inr (map itemWithId [''1.1.1'', ''1.10.1'', ''2.1.1'']) \<and>
   filterBySearchTerm ''1.1'' (map itemWithId [''1.1.1'', ''1.10.1'', ''2.1.1''])
     \<noteq> Inr (map itemWithId [''1.1.1'', ''1.10.1''])"
  by (simp add: search_eval)
section \<open>The outcomes of the API client\<close>

lemma distinct_messages:
  "distinct [''Resource not found'', ''Server error. Please try again later.'', ''Request failed'',
     ''Network error. Please check your connection and try again.'']"
  by simp

text \<open>
  With a status from 400 to 499 other than 404 and the JSON value \<^verbatim>\<open>null\<close> for body, the read
  of \<^verbatim>\<open>error.detail\<close> throws: the caller gets a TypeError, not an error with "Request
  failed".
\<close>

lemma apiRequest_null_body:
  "otherFailure status \<Longrightarrow>
   apiRequest (Response status (NullBody :: 'p jsonBody)) = Inl (TypeError ''Cannot read properties of null'')"
  by (auto simp add: otherFailure_def apiRequest_def apiRequestTry_def apiRequestCatch_def)

text \<open>
  Claim C7 (amended). \<^verbatim>\<open>apiRequest\<close> maps the outcome of the request as follows: status 404
  throws the not-found error; a status of 500 or more the server error; any other status
  outside 200..299, with a body that cannot be parsed, the error "Request failed", and
  with a body that is a JSON value other than \<^verbatim>\<open>null\<close>, an error whose message is the
  \<^verbatim>\<open>detail\<close> of the body when that is truthy and "Request failed" otherwise; status 204
  returns \<^verbatim>\<open>null\<close>; any other 2xx status whose body parses returns the parsed body (\<^verbatim>\<open>null\<close>
  for the JSON value \<^verbatim>\<open>null\<close>); a rejection of \<^verbatim>\<open>fetch\<close> with the TypeError "Failed to
  fetch" throws the network error, and any other rejection is thrown on as it is. The
  four fixed messages are pairwise distinct.
\<close>

theorem apiRequest_outcomes:
  "apiRequest (Response 404 (body :: 'p jsonBody)) = Inl (Error ''Resource not found'') \<and>
   (500 \<le> status \<longrightarrow>
      apiRequest (Response status body) = Inl (Error ''Server error. Please try again later.'')) \<and>
   (otherFailure status \<longrightarrow>
      apiRequest (Response status (Unparsable e :: 'p jsonBody)) = Inl (Error ''Request failed'') \<and>
      apiRequest (Response status (JsonBody detail (x :: 'p))) =
        Inl (Error (if truthy detail then toStringJS detail else ''Request failed''))) \<and>
   apiRequest (Response 204 body) = Inr None \<and>
   (200 \<le> status \<and> status \<le> 299 \<and> status \<noteq> 204 \<longrightarrow>
      apiRequest (Response status (JsonBody detail x)) = Inr (Some x) \<and>
      apiRequest (Response status (NullBody :: 'p jsonBody)) = Inr None) \<and>
   apiRequest (Rejected (TypeError ''Failed to fetch'') :: 'p jsonBody fetchOutcome) =
      Inl (Error ''Network error. Please check your connection and try again.'') \<and>
   (rejection \<noteq> TypeError ''Failed to fetch'' \<longrightarrow>
      apiRequest (Rejected rejection :: 'p jsonBody fetchOutcome) = Inl rejection) \<and>
   distinct [''Resource not found'', ''Server error. Please try again later.'', ''Request failed'',
     ''Network error. Please check your connection and try again.'']"
proof (intro conjI impI)
  show "apiRequest (Response 404 (body :: 'p jsonBody)) = Inl (Error ''Resource not found'')"
    by (simp add: apiRequest_def apiRequestTry_def apiRequestCatch_def)
  show "apiRequest (Response status body) = Inl (Error ''Server error. Please try again later.'')"
    if "500 \<le> status"
    using that by (simp add: apiRequest_def apiRequestTry_def apiRequestCatch_def)
  show "apiRequest (Response status (Unparsable e :: 'p jsonBody)) = Inl (Error ''Request failed'')"
    if "otherFailure status"
    using that by (auto simp add: otherFailure_def apiRequest_def apiRequestTry_def apiRequestCatch_def)
  show "apiRequest (Response status (JsonBody detail x)) =
        Inl (Error (if truthy detail then toStringJS detail else ''Request failed''))"
    if "otherFailure status"
    using that by (auto simp add: otherFailure_def apiRequest_def apiRequestTry_def apiRequestCatch_def orElse_def)
  show "apiRequest (Response 204 body) = Inr None"
    by (simp add: apiRequest_def apiRequestTry_def)
  show "apiRequest (Response status (JsonBody detail x)) = Inr (Some x)"
    if "200 \<le> status \<and> status \<le> 299 \<and> status \<noteq> 204"
    using that by (simp add: apiRequest_def apiRequestTry_def)
  show "apiRequest (Response status (NullBody :: 'p jsonBody)) = Inr None"
    if "200 \<le> status \<and> status \<le> 299 \<and> status \<noteq> 204"
    using that by (simp add: apiRequest_def apiRequestTry_def)
  show "apiRequest (Rejected (TypeError ''Failed to fetch'') :: 'p jsonBody fetchOutcome) =
      Inl (Error ''Network error. Please check your connection and try again.'')"
    by (simp add: apiRequest_def apiRequestTry_def apiRequestCatch_def)
  show "apiRequest (Rejected rejection :: 'p jsonBody fetchOutcome) = Inl rejection" if "rejection \<noteq> TypeError ''Failed to fetch''"
    using that by (simp add: apiRequest_def apiRequestTry_def apiRequestCatch_def)
  show "distinct [''Resource not found'', ''Server error. Please try again later.'', ''Request failed'',
     ''Network error. Please check your connection and try again.'']"
    by (rule distinct_messages)
qed

text \<open>The theorem at the statuses 400, 503 and 200 and at a rejection.\<close>

theorem apiRequest_outcomes_witness:
  "otherFailure 400 \<and>
   apiRequest (Response 400 (JsonBody (JString ''Suggestion text is required'') (5::nat))) =
     Inl (Error ''Suggestion text is required'') \<and>
   apiRequest (Response 400 (Unparsable (SyntaxError ''Unexpected token'') :: nat jsonBody)) =
     Inl (Error ''Request failed'') \<and>
   apiRequest (Response 503 (NullBody :: nat jsonBody)) = Inl (Error ''Server error. Please try again later.'') \<and>
   apiRequest (Response 200 (JsonBody JUndefined (5::nat))) = Inr (Some 5) \<and>
   apiRequest (Response 200 (NullBody :: nat jsonBody)) = Inr None \<and>
   apiRequest (Rejected (SyntaxError ''x'') :: nat jsonBody fetchOutcome) = Inl (SyntaxError ''x'')"
proof -
  have o: "otherFailure 400" by (simp add: otherFailure_def)
  from apiRequest_outcomes [of "NullBody :: nat jsonBody" 400 "SyntaxError ''Unexpected token''"
      "JString ''Suggestion text is required''" 5 "SyntaxError ''x''"] o
  have a: "apiRequest (Response 400 (JsonBody (JString ''Suggestion text is required'') (5::nat))) =
     Inl (Error ''Suggestion text is required'')"
    and b: "apiRequest (Response 400 (Unparsable (SyntaxError ''Unexpected token'') :: nat jsonBody)) =
     Inl (Error ''Request failed'')"
    and c: "apiRequest (Rejected (SyntaxError ''x'') :: nat jsonBody fetchOutcome) = Inl (SyntaxError ''x'')"
    by simp_all
  from apiRequest_outcomes [of "NullBody :: nat jsonBody" 503]
  have d: "apiRequest (Response 503 (NullBody :: nat jsonBody)) = Inl (Error ''Server error. Please try again later.'')"
    by simp
  from apiRequest_outcomes [of "NullBody :: nat jsonBody" 200 _ JUndefined "5::nat"]
  have e: "apiRequest (Response 200 (JsonBody JUndefined (5::nat))) = Inr (Some 5)"
    and f: "apiRequest (Response 200 (NullBody :: nat jsonBody)) = Inr None" by simp_all
  from o a b c d e f show ?thesis by simp
qed

text \<open>
  A network failure need not give the network error: where \<^verbatim>\<open>fetch\<close> rejects with another
  message ("Load failed" is one a browser uses), the TypeError is thrown on unchanged.
\<close>

theorem apiRequest_network_counterexample:
  "apiRequest (Rejected (TypeError ''Load failed'') :: unit jsonBody fetchOutcome)
     = Inl (TypeError ''Load failed'') \<and>
   apiRequest (Rejected (TypeError ''Load failed'') :: unit jsonBody fetchOutcome)
     \<noteq> Inl (Error ''Network error. Please check your connection and try again.'')"
  by (simp add: apiRequest_def apiRequestTry_def apiRequestCatch_def)
section \<open>Toggling a section touches that section only\<close>

lemma setOpenFirst_length: "length (setOpenFirst sid b els) = length els"
  by (induction els) simp_all

lemma setOpenFirst_nth:
  "i < length els \<Longrightarrow>
   e_sectionId (setOpenFirst sid b els ! i) = e_sectionId (els ! i) \<and>
   e_title (setOpenFirst sid b els ! i) = e_title (els ! i) \<and>
   e_cards (setOpenFirst sid b els ! i) = e_cards (els ! i) \<and>
   (e_sectionId (els ! i) \<noteq> sid \<longrightarrow> setOpenFirst sid b els ! i = els ! i)"
proof (induction els arbitrary: i)
  case Nil
  then show ?case by simp
next
  case (Cons el els)
  show ?case
  proof (cases i)
    case 0
    then show ?thesis by simp
  next
    case (Suc j)
    with Cons.prems have "j < length els" by simp
    from Cons.IH [OF this] Suc show ?thesis by simp
  qed
qed

lemma filter_remove1_other: "filter (\<lambda>s. s \<noteq> x) (remove1 x xs) = filter (\<lambda>s. s \<noteq> x) xs"
  by (induction xs) simp_all

lemma toggled_others:
  "filter (\<lambda>s. s \<noteq> sid) (openSections (toggleSection sid st)) = filter (\<lambda>s. s \<noteq> sid) (openSections st)"
  by (simp add: toggleSection_def Let_def filter_remove1_other)

text \<open>
  Claim C8. \<^verbatim>\<open>toggleSection\<close> sends no request and leaves the search term, the recorded
  identifiers, the notification and the container's "no results" state as they are. In
  \<^verbatim>\<open>openSections\<close> it removes the section's entry when there is one and appends it
  otherwise; the entries of the other sections stay, in their order. The container keeps
  its section elements: each keeps its identifier, title and cards, and every element of
  another section is unchanged (only the \<^verbatim>\<open>open\<close> classes of the toggled section's arrow and
  content can change).
\<close>

theorem toggleSection_frame:
  "fetchLog (toggleSection sid st) = fetchLog st \<and>
   searchTerm (toggleSection sid st) = searchTerm st \<and>
   currentPolicyIds (toggleSection sid st) = currentPolicyIds st \<and>
   hasContainer (toggleSection sid st) = hasContainer st \<and>
   containerNoResults (toggleSection sid st) = containerNoResults st \<and>
   notification (toggleSection sid st) = notification st \<and>
   notificationsShown (toggleSection sid st) = notificationsShown st \<and>
   openSections (toggleSection sid st) =
     (if sid \<in> set (openSections st) then remove1 sid (openSections st) else openSections st @ [sid]) \<and>
   filter (\<lambda>s. s \<noteq> sid) (openSections (toggleSection sid st)) = filter (\<lambda>s. s \<noteq> sid) (openSections st) \<and>
   length (containerSections (toggleSection sid st)) = length (containerSections st) \<and>
   (\<forall>i < length (containerSections st).
      e_sectionId (containerSections (toggleSection sid st) ! i) = e_sectionId (containerSections st ! i) \<and>
      e_title (containerSections (toggleSection sid st) ! i) = e_title (containerSections st ! i) \<and>
      e_cards (containerSections (toggleSection sid st) ! i) = e_cards (containerSections st ! i) \<and>
      (e_sectionId (containerSections st ! i) \<noteq> sid \<longrightarrow>
         containerSections (toggleSection sid st) ! i = containerSections st ! i))"
proof -
  have els: "containerSections (toggleSection sid st) = containerSections st \<or>
      (\<exists>b. containerSections (toggleSection sid st) = setOpenFirst sid b (containerSections st))"
    by (auto simp: toggleSection_def Let_def)
  have len: "length (containerSections (toggleSection sid st)) = length (containerSections st)"
    using els by (auto simp: setOpenFirst_length)
  have nth: "\<forall>i < length (containerSections st).
      e_sectionId (containerSections (toggleSection sid st) ! i) = e_sectionId (containerSections st ! i) \<and>
      e_title (containerSections (toggleSection sid st) ! i) = e_title (containerSections st ! i) \<and>
      e_cards (containerSections (toggleSection sid st) ! i) = e_cards (containerSections st ! i) \<and>
      (e_sectionId (containerSections st ! i) \<noteq> sid \<longrightarrow>
         containerSections (toggleSection sid st) ! i = containerSections st ! i)"
    using els setOpenFirst_nth by (elim disjE exE) simp_all
  have rest: "fetchLog (toggleSection sid st) = fetchLog st \<and>
   searchTerm (toggleSection sid st) = searchTerm st \<and>
   currentPolicyIds (toggleSection sid st) = currentPolicyIds st \<and>
   hasContainer (toggleSection sid st) = hasContainer st \<and>
   containerNoResults (toggleSection sid st) = containerNoResults st \<and>
   notification (toggleSection sid st) = notification st \<and>
   notificationsShown (toggleSection sid st) = notificationsShown st \<and>
   openSections (toggleSection sid st) =
     (if sid \<in> set (openSections st) then remove1 sid (openSections st) else openSections st @ [sid])"
    by (simp add: toggleSection_def Let_def)
  from rest toggled_others len nth show ?thesis by blast
qed

lemma renderedPage_sections:
  "map e_sectionId (containerSections renderedPage) = [1, 2, 3] \<and>
   map e_contentOpen (containerSections renderedPage) = [True, True, True] \<and>
   openSections renderedPage = [1, 2, 3]"
  by code_simp

lemma toggled_sections:
  "map e_contentOpen (containerSections (toggleSection 2 renderedPage)) = [True, False, True] \<and>
   map e_arrowOpen (containerSections (toggleSection 2 renderedPage)) = [True, False, True] \<and>
   openSections (toggleSection 2 renderedPage) = [1, 3]"
  by code_simp

text \<open>The theorem at the rendered page, closing section 2: sections 1 and 3 stay as they are.\<close>

theorem toggleSection_frame_witness:
  "length (containerSections renderedPage) = 3 \<and>
   map e_sectionId (containerSections renderedPage) = [1, 2, 3] \<and>
   openSections (toggleSection 2 renderedPage) = [1, 3] \<and>
   map e_contentOpen (containerSections (toggleSection 2 renderedPage)) = [True, False, True] \<and>
   containerSections (toggleSection 2 renderedPage) ! 0 = containerSections renderedPage ! 0 \<and>
   containerSections (toggleSection 2 renderedPage) ! 2 = containerSections renderedPage ! 2 \<and>
   fetchLog (toggleSection 2 renderedPage) = fetchLog renderedPage"
proof -
  have len: "length (containerSections renderedPage) = 3" by code_simp
  have i0: "e_sectionId (containerSections renderedPage ! 0) = 1"
    and i2: "e_sectionId (containerSections renderedPage ! 2) = 3" by code_simp+
  note frame = toggleSection_frame [of 2 renderedPage]
  from frame have nth: "\<forall>i < length (containerSections renderedPage).
      e_sectionId (containerSections renderedPage ! i) \<noteq> 2 \<longrightarrow>
         containerSections (toggleSection 2 renderedPage) ! i = containerSections renderedPage ! i"
    by blast
  from nth len i0 have k0: "containerSections (toggleSection 2 renderedPage) ! 0 = containerSections renderedPage ! 0"
    by simp
  from nth len i2 have k2: "containerSections (toggleSection 2 renderedPage) ! 2 = containerSections renderedPage ! 2"
    by simp
  from frame have fl: "fetchLog (toggleSection 2 renderedPage) = fetchLog renderedPage" by blast
  from len renderedPage_sections toggled_sections k0 k2 fl show ?thesis by simp
qed
section \<open>The check for new policies\<close>

lemma renderSections_fields:
  "hasContainer st \<Longrightarrow>
   openSections (renderSections lc net st) = openSections st \<and>
   searchTerm (renderSections lc net st) = searchTerm st \<and>
   hasContainer (renderSections lc net st) \<and>
   notification (renderSections lc net st) = notification st \<and>
   notificationsShown (renderSections lc net st) = notificationsShown st \<and>
   currentPolicyIds (renderSections lc net st) = recordedIds (fst (loadSections lc (searchTerm st) net))"
  by (simp add: renderSections_def Let_def split: prod.splits)

lemma check_not_larger:
  "hasContainer st \<Longrightarrow>
   \<not> length (fetchedIds (getApprovedPolicies checked)) > length (currentPolicyIds st) \<Longrightarrow>
   checkForNewPolicies lc checked net st = st\<lparr>fetchLog := fetchLog st @ [None]\<rparr>"
  by (simp add: checkForNewPolicies_def Let_def)

lemma check_larger:
  "hasContainer st \<Longrightarrow>
   length (fetchedIds (getApprovedPolicies checked)) > length (currentPolicyIds st) \<Longrightarrow>
   checkForNewPolicies lc checked net st =
     renderSections lc net
       (showNewPoliciesNotification
          (length (fetchedIds (getApprovedPolicies checked)) - length (currentPolicyIds st))
          (st\<lparr>fetchLog := fetchLog st @ [None]\<rparr>))"
  by (simp add: checkForNewPolicies_def Let_def)

lemma check_no_container: "\<not> hasContainer st \<Longrightarrow> checkForNewPolicies lc checked net st = st"
  by (simp add: checkForNewPolicies_def)

text \<open>
  What a check does to the recorded identifiers: nothing on a page without the container;
  nothing when the fetched identifier set is not strictly larger than the recorded one;
  otherwise the re-rendering records the identifiers of the items it loaded for the
  sections.
\<close>

lemma check_records_only_on_rerender:
  "(\<not> hasContainer st \<longrightarrow> checkForNewPolicies lc checked net st = st) \<and>
   (hasContainer st \<and> length (fetchedIds (getApprovedPolicies checked)) \<le> length (currentPolicyIds st) \<longrightarrow>
      currentPolicyIds (checkForNewPolicies lc checked net st) = currentPolicyIds st) \<and>
   (hasContainer st \<and> length (fetchedIds (getApprovedPolicies checked)) > length (currentPolicyIds st) \<longrightarrow>
      currentPolicyIds (checkForNewPolicies lc checked net st) =
        recordedIds (fst (loadSections lc (searchTerm st) net)))"
proof (intro conjI impI)
  assume "\<not> hasContainer st"
  then show "checkForNewPolicies lc checked net st = st" by (rule check_no_container)
next
  assume "hasContainer st \<and> length (fetchedIds (getApprovedPolicies checked)) \<le> length (currentPolicyIds st)"
  then show "currentPolicyIds (checkForNewPolicies lc checked net st) = currentPolicyIds st"
    by (simp add: check_not_larger)
next
  assume a: "hasContainer st \<and> length (fetchedIds (getApprovedPolicies checked)) > length (currentPolicyIds st)"
  let ?st1 = "showNewPoliciesNotification
          (length (fetchedIds (getApprovedPolicies checked)) - length (currentPolicyIds st))
          (st\<lparr>fetchLog := fetchLog st @ [None]\<rparr>)"
  have c: "hasContainer ?st1" and t: "searchTerm ?st1 = searchTerm st"
    using a by (simp_all add: showNewPoliciesNotification_def)
  from a have "checkForNewPolicies lc checked net st = renderSections lc net ?st1"
    by (simp add: check_larger)
  then show "currentPolicyIds (checkForNewPolicies lc checked net st) =
        recordedIds (fst (loadSections lc (searchTerm st) net))"
    using renderSections_fields [OF c, of lc net] t by simp
qed

lemma threeRecorded_ids:
  "hasContainer threeRecorded \<and>
   currentPolicyIds threeRecorded = [JString ''1.1.1'', JString ''1.1.2'', JString ''2.1.1'']"
  by code_simp

lemma swapped_ids:
  "fetchedIds (getApprovedPolicies (okResponse swappedPolicies))
     = [JString ''1.1.1'', JString ''1.1.2'', JString ''3.2.1'']"
  by code_simp

text \<open>
  Claim C2. The specification has the recorded identifier set replaced with the fetched
  one after every check, also when the fetched set is not strictly larger. The code at a
  check that finds as many identifiers as are recorded: the page has recorded "1.1.1",
  "1.1.2" and "2.1.1"; on the server "2.1.1" is withdrawn and "3.2.1" approved; the check
  fetches "1.1.1", "1.1.2" and "3.2.1", shows no notification, and leaves the recorded set
  as it was, with "2.1.1" and without "3.2.1".
\<close>

theorem checkForNewPolicies_keeps_stale_ids:
  "currentPolicyIds threeRecorded = [JString ''1.1.1'', JString ''1.1.2'', JString ''2.1.1''] \<and>
   fetchedIds (getApprovedPolicies (okResponse swappedPolicies))
     = [JString ''1.1.1'', JString ''1.1.2'', JString ''3.2.1''] \<and>
   currentPolicyIds (checkForNewPolicies codeUnitCompare (okResponse swappedPolicies) (serving swappedPolicies) threeRecorded)
     = [JString ''1.1.1'', JString ''1.1.2'', JString ''2.1.1''] \<and>
   notificationsShown (checkForNewPolicies codeUnitCompare (okResponse swappedPolicies) (serving swappedPolicies) threeRecorded)
     = [] \<and>
   JString ''3.2.1'' \<in> set (fetchedIds (getApprovedPolicies (okResponse swappedPolicies))) \<and>
   JString ''3.2.1'' \<notin> set (currentPolicyIds
     (checkForNewPolicies codeUnitCompare (okResponse swappedPolicies) (serving swappedPolicies) threeRecorded))"
proof -
  have a: "currentPolicyIds (checkForNewPolicies codeUnitCompare (okResponse swappedPolicies) (serving swappedPolicies) threeRecorded)
     = [JString ''1.1.1'', JString ''1.1.2'', JString ''2.1.1'']"
    by code_simp
  have b: "fetchedIds (getApprovedPolicies (okResponse swappedPolicies))
     = [JString ''1.1.1'', JString ''1.1.2'', JString ''3.2.1'']"
    by (rule swapped_ids)
  have c: "notificationsShown (checkForNewPolicies codeUnitCompare (okResponse swappedPolicies) (serving swappedPolicies) threeRecorded)
     = []"
    by code_simp
  have d: "currentPolicyIds threeRecorded = [JString ''1.1.1'', JString ''1.1.2'', JString ''2.1.1'']"
    using threeRecorded_ids by blast
  show ?thesis unfolding a b c d by simp
qed


lemma createSectionElement_open:
  "e_contentOpen (createSectionElement os sec) = (e_sectionId (createSectionElement os sec) \<in> set os) \<and>
   e_arrowOpen (createSectionElement os sec) = (e_sectionId (createSectionElement os sec) \<in> set os)"
  by (simp add: createSectionElement_def Let_def)

lemma renderSections_open_state:
  "hasContainer st \<Longrightarrow>
   list_all (\<lambda>el. e_contentOpen el = (e_sectionId el \<in> set (openSections st)) \<and>
                    e_arrowOpen el = (e_sectionId el \<in> set (openSections st)))
     (containerSections (renderSections lc net st))"
  by (simp add: renderSections_def Let_def list_all_iff createSectionElement_open split: prod.splits)

lemma notificationText_one: "notificationText 1 = ''1 new policy has been approved!''"
  by code_simp

text \<open>
  What a check does on a page with the container: it shows a notification, naming the
  difference of the two cardinalities, and re-renders with the open sections as they
  were, exactly when the fetched identifier set is strictly larger than the recorded one;
  otherwise it only sends its request. A check that fetches 4 identifiers after 3 were
  recorded shows one notification, "1 new policy has been approved!".
\<close>

lemma check_notifies_iff_larger:
  assumes "hasContainer st"
    and "new = fetchedIds (getApprovedPolicies checked)"
    and "st' = checkForNewPolicies lc checked net st"
  shows
   "(length new > length (currentPolicyIds st) \<longrightarrow>
       st' = renderSections lc net
               (showNewPoliciesNotification (length new - length (currentPolicyIds st))
                  (st\<lparr>fetchLog := fetchLog st @ [None]\<rparr>)) \<and>
       notificationsShown st' = notificationsShown st @ [length new - length (currentPolicyIds st)] \<and>
       notification st' = Some (notificationText (length new - length (currentPolicyIds st))) \<and>
       openSections st' = openSections st \<and>
       list_all (\<lambda>el. e_contentOpen el = (e_sectionId el \<in> set (openSections st)) \<and>
                        e_arrowOpen el = (e_sectionId el \<in> set (openSections st)))
         (containerSections st') \<and>
       currentPolicyIds st' = recordedIds (fst (loadSections lc (searchTerm st) net))) \<and>
    (\<not> length new > length (currentPolicyIds st) \<longrightarrow>
       st' = st\<lparr>fetchLog := fetchLog st @ [None]\<rparr>) \<and>
    (notificationsShown st' \<noteq> notificationsShown st \<longleftrightarrow> length new > length (currentPolicyIds st)) \<and>
    (length new = 4 \<and> length (currentPolicyIds st) = 3 \<longrightarrow>
       notificationsShown st' = notificationsShown st @ [1] \<and>
       notification st' = Some ''1 new policy has been approved!'')"
proof -
  let ?n = "length new - length (currentPolicyIds st)"
  let ?st1 = "showNewPoliciesNotification ?n (st\<lparr>fetchLog := fetchLog st @ [None]\<rparr>)"
  have c: "hasContainer ?st1" and t: "searchTerm ?st1 = searchTerm st"
    and o: "openSections ?st1 = openSections st"
    and ns: "notificationsShown ?st1 = notificationsShown st @ [?n]"
    and nt: "notification ?st1 = Some (notificationText ?n)"
    using assms(1) by (simp_all add: showNewPoliciesNotification_def)
  have larger: "st' = renderSections lc net ?st1 \<and>
       notificationsShown st' = notificationsShown st @ [?n] \<and>
       notification st' = Some (notificationText ?n) \<and>
       openSections st' = openSections st \<and>
       list_all (\<lambda>el. e_contentOpen el = (e_sectionId el \<in> set (openSections st)) \<and>
                        e_arrowOpen el = (e_sectionId el \<in> set (openSections st)))
         (containerSections st') \<and>
       currentPolicyIds st' = recordedIds (fst (loadSections lc (searchTerm st) net))"
    if "length new > length (currentPolicyIds st)"
  proof -
    from that assms have eq: "st' = renderSections lc net ?st1" by (simp add: check_larger)
    show ?thesis
      unfolding eq
      using renderSections_fields [OF c, of lc net] renderSections_open_state [OF c, of lc net] t o ns nt
      by simp
  qed
  have notlarger: "st' = st\<lparr>fetchLog := fetchLog st @ [None]\<rparr>"
    if "\<not> length new > length (currentPolicyIds st)"
    using that assms by (simp add: check_not_larger)
  have iff: "notificationsShown st' \<noteq> notificationsShown st \<longleftrightarrow> length new > length (currentPolicyIds st)"
  proof (cases "length new > length (currentPolicyIds st)")
    case True
    from larger [OF True] have "notificationsShown st' = notificationsShown st @ [?n]" by blast
    with True show ?thesis by simp
  next
    case False
    from notlarger [OF False] have "notificationsShown st' = notificationsShown st" by simp
    with False show ?thesis by simp
  qed
  have four: "notificationsShown st' = notificationsShown st @ [1] \<and>
       notification st' = Some ''1 new policy has been approved!''"
    if "length new = 4 \<and> length (currentPolicyIds st) = 3"
  proof -
    from that have gt: "length new > length (currentPolicyIds st)" and one: "?n = 1" by simp_all
    from larger [OF gt] have "notificationsShown st' = notificationsShown st @ [?n]"
      and "notification st' = Some (notificationText ?n)" by blast+
    then show ?thesis unfolding one notificationText_one by blast
  qed
  from larger notlarger iff four show ?thesis by blast
qed

lemma check_after_three:
  "notificationsShown (checkForNewPolicies codeUnitCompare (okResponse fourPolicies) (serving fourPolicies) threeRecorded) = [1] \<and>
   notification (checkForNewPolicies codeUnitCompare (okResponse fourPolicies) (serving fourPolicies) threeRecorded)
     = Some ''1 new policy has been approved!'' \<and>
   currentPolicyIds (checkForNewPolicies codeUnitCompare (okResponse fourPolicies) (serving fourPolicies) threeRecorded)
     = [JString ''1.1.1'', JString ''1.1.2'', JString ''2.1.1'', JString ''3.2.1'']"
  by code_simp

lemma four_ids:
  "fetchedIds (getApprovedPolicies (okResponse fourPolicies))
     = [JString ''1.1.1'', JString ''1.1.2'', JString ''2.1.1'', JString ''3.2.1'']"
  by code_simp

text \<open>
  The scenario of the specification on a page without search term: three policies
  recorded, a fourth approved since; one notification, and four identifiers recorded.
\<close>

lemma check_after_three_sizes:
  "length (currentPolicyIds threeRecorded) = 3 \<and>
   length (fetchedIds (getApprovedPolicies (okResponse fourPolicies))) = 4 \<and>
   length (currentPolicyIds
     (checkForNewPolicies codeUnitCompare (okResponse fourPolicies) (serving fourPolicies) threeRecorded)) = 4"
  using check_after_three by (simp add: threeRecorded_ids four_ids)

lemma searchedPage_ids:
  "hasContainer searchedPage \<and> searchTerm searchedPage = ''1.1'' \<and>
   currentPolicyIds searchedPage = [JString ''1.1.1'', JString ''1.1.2'', JString ''2.1.1'']"
  by code_simp

text \<open>
  Claim C6. The specification has a check that sees 4 identifiers after 3 were recorded
  show one notification citing 1 new policy, the recorded set becoming size 4. The code on
  a page with the search term "1.1", all four policies on the server before and after:
  the rendering has recorded the three identifiers that match the search; the check
  fetches four identifiers, each of the three recorded among them, shows "1 new policy has
  been approved!", and its re-rendering records the same three identifiers again, so the
  next check shows the notification once more.
\<close>

theorem checkForNewPolicies_renotifies_under_search:
  "currentPolicyIds searchedPage = [JString ''1.1.1'', JString ''1.1.2'', JString ''2.1.1''] \<and>
   fetchedIds (getApprovedPolicies (okResponse fourPolicies))
     = [JString ''1.1.1'', JString ''1.1.2'', JString ''2.1.1'', JString ''3.2.1''] \<and>
   notificationsShown (checkForNewPolicies codeUnitCompare (okResponse fourPolicies) (serving fourPolicies) searchedPage) = [1] \<and>
   notification (checkForNewPolicies codeUnitCompare (okResponse fourPolicies) (serving fourPolicies) searchedPage)
     = Some ''1 new policy has been approved!'' \<and>
   currentPolicyIds (checkForNewPolicies codeUnitCompare (okResponse fourPolicies) (serving fourPolicies) searchedPage)
     = [JString ''1.1.1'', JString ''1.1.2'', JString ''2.1.1''] \<and>
   length (currentPolicyIds
     (checkForNewPolicies codeUnitCompare (okResponse fourPolicies) (serving fourPolicies) searchedPage)) \<noteq> 4 \<and>
   notificationsShown
     (checkForNewPolicies codeUnitCompare (okResponse fourPolicies) (serving fourPolicies)
        (checkForNewPolicies codeUnitCompare (okResponse fourPolicies) (serving fourPolicies) searchedPage)) = [1, 1]"
proof -
  have a: "notificationsShown (checkForNewPolicies codeUnitCompare (okResponse fourPolicies) (serving fourPolicies) searchedPage) = [1]"
    by code_simp
  have b: "currentPolicyIds
     (checkForNewPolicies codeUnitCompare (okResponse fourPolicies) (serving fourPolicies) searchedPage)
      = [JString ''1.1.1'', JString ''1.1.2'', JString ''2.1.1'']"
    by code_simp
  have c: "notification (checkForNewPolicies codeUnitCompare (okResponse fourPolicies) (serving fourPolicies) searchedPage)
     = Some ''1 new policy has been approved!''"
    by code_simp
  have d: "notificationsShown
     (checkForNewPolicies codeUnitCompare (okResponse fourPolicies) (serving fourPolicies)
        (checkForNewPolicies codeUnitCompare (okResponse fourPolicies) (serving fourPolicies) searchedPage)) = [1, 1]"
    by code_simp
  show ?thesis unfolding a b c d by (simp add: searchedPage_ids four_ids)
qed
section \<open>The fallback of the listing\<close>

lemma pushItem_keys: "map s_sectionKey (pushItem key item sm) = map s_sectionKey sm"
  by (induction sm) (simp_all add: pushItem_def)

lemma groupOf_Cons:
  "groupOf (p # ps) k =
     (if toStringJS (sectionOf p) = k then [fallbackItem p (sectionOf p)] else []) @ groupOf ps k"
  by (simp add: groupOf_def)

lemma groupPolicies_result:
  "groupPolicies ps sm = Inr r \<Longrightarrow>
   r = map (\<lambda>entry. entry\<lparr>s_items := s_items entry @ groupOf ps (s_sectionKey entry)\<rparr>) sm"
proof (induction ps arbitrary: sm)
  case Nil
  then show ?case by (simp add: groupOf_def)
next
  case (Cons p ps)
  let ?section = "sectionOf p" and ?key = "toStringJS (sectionOf p)"
  show ?case
  proof (cases "?key \<in> set (map s_sectionKey sm)")
    case True
    with Cons.prems have "groupPolicies ps (pushItem ?key (fallbackItem p ?section) sm) = Inr r"
      by (simp add: Let_def sectionOf_def)
    from Cons.IH [OF this]
    show ?thesis by (simp add: pushItem_def groupOf_Cons comp_def)
  next
    case False
    with Cons.prems have "groupPolicies ps sm = Inr r"
      by (simp add: Let_def sectionOf_def split: if_splits)
    from Cons.IH [OF this] have r: "r = map (\<lambda>entry. entry\<lparr>s_items := s_items entry @ groupOf ps (s_sectionKey entry)\<rparr>) sm" .
    have "\<forall>entry\<in>set sm. groupOf (p # ps) (s_sectionKey entry) = groupOf ps (s_sectionKey entry)"
      using False by (auto simp: groupOf_Cons)
    then show ?thesis unfolding r by (intro map_cong refl) simp
  qed
qed

lemma filterAndSortSections_result:
  "filterAndSortSections lc term gs = Inr r \<Longrightarrow>
   list_all2 (\<lambda>g res. filterAndSort lc term (s_items g) = Inr (s_items res) \<and>
                       s_sectionKey res = s_sectionKey g \<and> s_id res = s_id g \<and> s_title res = s_title g) gs r"
proof (induction gs arbitrary: r)
  case Nil
  then show ?case by simp
next
  case (Cons g gs)
  from Cons.prems obtain items r' where
    i: "filterAndSort lc term (s_items g) = Inr items" and
    r': "filterAndSortSections lc term gs = Inr r'" and r: "r = g\<lparr>s_items := items\<rparr> # r'"
    by (auto split: sum.splits)
  from Cons.IH [OF r'] i r show ?case by simp
qed

lemma fallbackSections_result:
  assumes "fallbackSections lc term net = Inr result"
  shows "map s_sectionKey result = [''1'', ''2'', ''3''] \<and>
         (\<forall>sec\<in>set result.
            filterAndSort lc term (groupOf (getApprovedPolicies (net None)) (s_sectionKey sec)) = Inr (s_items sec))"
proof -
  let ?all = "getApprovedPolicies (net None)"
  let ?sm = "map (\<lambda>section. withItems section []) sections"
  from assms obtain grouped where g: "groupPolicies ?all ?sm = Inr grouped"
    and f: "filterAndSortSections lc term grouped = Inr result"
    by (auto simp: fallbackSections_def Let_def split: sum.splits)
  from groupPolicies_result [OF g]
  have grouped: "grouped = map (\<lambda>entry. entry\<lparr>s_items := s_items entry @ groupOf ?all (s_sectionKey entry)\<rparr>) ?sm" .
  have keys: "map s_sectionKey grouped = [''1'', ''2'', ''3'']"
    unfolding grouped by (simp add: sections_def withItems_def)
  have items: "\<forall>g\<in>set grouped. s_items g = groupOf ?all (s_sectionKey g)"
    unfolding grouped by (simp add: sections_def withItems_def)
  note l = filterAndSortSections_result [OF f]
  from l have "map s_sectionKey result = map s_sectionKey grouped"
    by (induction grouped result rule: list_all2_induct) simp_all
  moreover from l items have "\<forall>sec\<in>set result.
            filterAndSort lc term (groupOf ?all (s_sectionKey sec)) = Inr (s_items sec)"
    by (induction grouped result rule: list_all2_induct) simp_all
  ultimately show ?thesis using keys by simp
qed

lemma renderSections_fetchLog:
  "hasContainer st \<Longrightarrow>
   fetchLog (renderSections lc net st)
     = fetchLog st @ map (\<lambda>sec. Some (s_title sec)) sections
         @ (if snd (loadSections lc (searchTerm st) net) then [None] else [])"
  by (cases "loadSections lc (searchTerm st) net") (simp add: renderSections_def Let_def)

text \<open>
  Claim C3 (amended). When \<^verbatim>\<open>renderSections\<close> takes its fallback path, it requests the
  complete unfiltered list exactly once, after the three section requests. When the
  processing of that list does not throw, its result replaces the per-section results:
  the three sections in order, each with the filtered and sorted items of the policies
  whose own \<^verbatim>\<open>section\<close> field has the section's key. A policy with a missing section
  counts for the first section; a policy of any other section is in none of the groups.
\<close>

theorem fallback_groups_by_own_section:
  assumes "hasContainer st" and "snd (loadSections lc (searchTerm st) net)"
  shows "fetchLog (renderSections lc net st)
           = fetchLog st @ map (\<lambda>sec. Some (s_title sec)) sections @ [None] \<and>
         (\<forall>result. fallbackSections lc (searchTerm st) net = Inr result \<longrightarrow>
            fst (loadSections lc (searchTerm st) net) = result \<and>
            map s_sectionKey result = [''1'', ''2'', ''3''] \<and>
            (\<forall>sec\<in>set result.
               filterAndSort lc (searchTerm st)
                 (groupOf (getApprovedPolicies (net None)) (s_sectionKey sec)) = Inr (s_items sec))) \<and>
         (\<forall>policy :: policy. \<not> truthy (p_section policy) \<longrightarrow> toStringJS (sectionOf policy) = ''1'')"
proof (intro conjI allI impI)
  show "fetchLog (renderSections lc net st)
           = fetchLog st @ map (\<lambda>sec. Some (s_title sec)) sections @ [None]"
    using assms by (simp add: renderSections_fetchLog)
next
  fix result assume r: "fallbackSections lc (searchTerm st) net = Inr result"
  have "list_ex snd (map (fetchSection lc (searchTerm st) net) sections)"
    using assms(2) by (simp add: loadSections_def Let_def split: if_splits)
  with r show "fst (loadSections lc (searchTerm st) net) = result"
    by (simp add: loadSections_def Let_def)
  from fallbackSections_result [OF r]
  show "map s_sectionKey result = [''1'', ''2'', ''3'']"
    and "\<forall>sec\<in>set result.
               filterAndSort lc (searchTerm st)
                 (groupOf (getApprovedPolicies (net None)) (s_sectionKey sec)) = Inr (s_items sec)"
    by simp_all
next
  fix policy :: policy assume "\<not> truthy (p_section policy)"
  then show "toStringJS (sectionOf policy) = ''1''" by (simp add: sectionOf_def orElse_def)
qed


lemma numericIdServer_run:
  "loadSections codeUnitCompare [] numericIdServer =
     ([withItems (sections ! 0) [fallbackItem (mapPolicy (mixedPolicies ! 0)) (JString ''1'')],
       withItems (sections ! 1) [fallbackItem (mapPolicy (mixedPolicies ! 2)) (JNumber 2)],
       withItems (sections ! 2) []], True)"
  by code_simp

text \<open>
  The theorem at a page where the first section's callback throws: the full list is
  requested once, the policy without section is shown in section 1, the one with section
  2 (a number) in section 2.
\<close>

theorem fallback_groups_by_own_section_witness:
  "hasContainer initialPage \<and>
   snd (loadSections codeUnitCompare (searchTerm initialPage) numericIdServer) \<and>
   fetchLog (renderSections codeUnitCompare numericIdServer initialPage)
     = [Some ''Organizational Identity & Values'', Some ''Governance & Elections'',
        Some ''Operations, Staff & Finance'', None] \<and>
   fst (loadSections codeUnitCompare (searchTerm initialPage) numericIdServer)
     = [withItems (sections ! 0) [fallbackItem (mapPolicy (mixedPolicies ! 0)) (JString ''1'')],
        withItems (sections ! 1) [fallbackItem (mapPolicy (mixedPolicies ! 2)) (JNumber 2)],
        withItems (sections ! 2) []]"
proof -
  have c: "hasContainer initialPage" and t: "searchTerm initialPage = []"
    by (simp_all add: initialPage_def)
  have f: "snd (loadSections codeUnitCompare (searchTerm initialPage) numericIdServer)"
    unfolding t numericIdServer_run by simp
  have l0: "fetchLog initialPage = []" by (simp add: initialPage_def)
  have titles: "map (\<lambda>sec. Some (s_title sec)) sections
     = [Some ''Organizational Identity & Values'', Some ''Governance & Elections'',
        Some ''Operations, Staff & Finance'']"
    by code_simp
  from fallback_groups_by_own_section [OF c f]
  have "fetchLog (renderSections codeUnitCompare numericIdServer initialPage)
           = fetchLog initialPage @ map (\<lambda>sec. Some (s_title sec)) sections @ [None]"
    by blast
  then have log: "fetchLog (renderSections codeUnitCompare numericIdServer initialPage)
     = [Some ''Organizational Identity & Values'', Some ''Governance & Elections'',
        Some ''Operations, Staff & Finance'', None]"
    unfolding l0 titles by simp
  from c f log show ?thesis unfolding t numericIdServer_run by simp
qed

text \<open>
  The claim fails twice. With the request for section 2 answered by status 500, no
  fallback runs: three requests are sent, none for the full list, and section 2 is shown
  empty beside the results of sections 1 and 3. And in a fallback, the policy "4.1.1" of
  the unknown section "4" is in no section, not in the first.
\<close>

theorem fallback_trigger_and_default_counterexample:
  "snd (loadSections codeUnitCompare [] sectionTwoDown) = False \<and>
   fetchLog (renderSections codeUnitCompare sectionTwoDown initialPage)
     = [Some ''Organizational Identity & Values'', Some ''Governance & Elections'',
        Some ''Operations, Staff & Finance''] \<and>
   map (\<lambda>el. length (e_cards el)) (containerSections (renderSections codeUnitCompare sectionTwoDown initialPage))
     = [2, 0, 1] \<and>
   snd (loadSections codeUnitCompare [] numericIdServer) = True \<and>
   p_section (mapPolicy (mixedPolicies ! 1)) = JString ''4'' \<and>
   map (\<lambda>sec. map i_policyId (s_items sec)) (fst (loadSections codeUnitCompare [] numericIdServer))
     = [[JString ''1.1.1''], [JString ''2.1.1''], []]"
proof -
  have a: "snd (loadSections codeUnitCompare [] sectionTwoDown) = False" by code_simp
  have b: "fetchLog (renderSections codeUnitCompare sectionTwoDown initialPage)
     = [Some ''Organizational Identity & Values'', Some ''Governance & Elections'',
        Some ''Operations, Staff & Finance'']" by code_simp
  have c: "map (\<lambda>el. length (e_cards el)) (containerSections (renderSections codeUnitCompare sectionTwoDown initialPage))
     = [2, 0, 1]" by code_simp
  have d: "snd (loadSections codeUnitCompare [] numericIdServer) = True" by code_simp
  have e: "p_section (mapPolicy (mixedPolicies ! 1)) = JString ''4''" by code_simp
  have f: "map (\<lambda>sec. map i_policyId (s_items sec)) (fst (loadSections codeUnitCompare [] numericIdServer))
     = [[JString ''1.1.1''], [JString ''2.1.1''], []]" by code_simp
  from a b c d e f show ?thesis by blast
qed
section \<open>Admin actions on 401 and 403\<close>

lemma deletePolicyRequest_token:
  "accessToken (deletePolicyRequest policyId token None deleted b) = accessToken b"
  by (cases deleted)
     (simp_all add: deletePolicyRequest_def Let_def alert_def navigate_def callOnSuccess_def)

lemma deletePolicy_token:
  "accessToken (deletePolicy policyId policyName None me confirmed deleted b) = accessToken b"
proof (cases "accessToken b")
  case None
  then show ?thesis by (simp add: deletePolicy_def alert_def navigate_def)
next
  case (Some token)
  show ?thesis
  proof (cases "token = []")
    case True
    with Some show ?thesis by (simp add: deletePolicy_def alert_def navigate_def)
  next
    case False
    show ?thesis
    proof (cases me)
      case (Rejected err)
      with Some False show ?thesis by (simp add: deletePolicy_def Let_def alert_def)
    next
      case (Response status body)
      with Some False show ?thesis
        by (cases body)
           (simp_all add: deletePolicy_def Let_def alert_def navigate_def deletePolicyRequest_token)
    qed
  qed
qed

lemma approvePolicy_token:
  "accessToken (approvePolicy policyId None confirmed approved b) = accessToken b"
proof (cases "accessToken b")
  case None
  then show ?thesis by (simp add: approvePolicy_def alert_def navigate_def)
next
  case (Some token)
  show ?thesis
  proof (cases approved)
    case (Rejected err)
    with Some show ?thesis by (simp add: approvePolicy_def Let_def alert_def navigate_def)
  next
    case (Response status sb)
    obtain statusText body where sb: "sb = (statusText, body)" by (cases sb)
    from Some Response sb show ?thesis
      by (cases body)
         (simp_all add: approvePolicy_def Let_def alert_def navigate_def callOnSuccess_def)
  qed
qed

text \<open>
  Claim C4 (amended). With a token stored, the delete and approve actions answer a 401
  (of the DELETE or PUT request, or for the delete action of the request for the user)
  with the alert that the session has expired and a redirect to the login page, and a
  403 with a permission-denied alert and no redirect. In both cases the token stays in
  the storage: neither action ever removes it. The token is removed by the logout
  action.
\<close>

theorem admin_actions_on_401_403:
  assumes "accessToken b = Some token" and "token \<noteq> []"
  shows
   "deletePolicy policyId policyName onSuccess adminUser True (Response 401 errorText) b
      = b\<lparr>requests := requests b @ [GetMe token, DeletePolicyRequest policyId token],
           alerts := alerts b @ [''Your session has expired. Please login again.''],
           location := Some ''admin/login.html''\<rparr> \<and>
    deletePolicy policyId policyName onSuccess adminUser True (Response 403 errorText) b
      = b\<lparr>requests := requests b @ [GetMe token, DeletePolicyRequest policyId token],
           alerts := alerts b @ [''Sorry, only admin is allowed to delete policy.'']\<rparr> \<and>
    deletePolicy policyId policyName onSuccess (Response 401 body) confirmed deleted b
      = b\<lparr>requests := requests b @ [GetMe token],
           alerts := alerts b @ [''Your session has expired. Please login again.''],
           location := Some ''admin/login.html''\<rparr> \<and>
    approvePolicy policyId onSuccess True (Response 401 (statusText, jsonBody)) b
      = b\<lparr>requests := requests b @ [ApprovePolicyRequest policyId token],
           alerts := alerts b @ [''Your session has expired. Please login again.''],
           location := Some ''admin/login.html''\<rparr> \<and>
    approvePolicy policyId onSuccess True (Response 403 (statusText, jsonBody)) b
      = b\<lparr>requests := requests b @ [ApprovePolicyRequest policyId token],
           alerts := alerts b @ [''Only admins can approve policies.'']\<rparr> \<and>
    accessToken (deletePolicy policyId policyName None me confirmed deleted b) = accessToken b \<and>
    accessToken (approvePolicy policyId None confirmed approved b) = accessToken b \<and>
    handleLogout True b = b\<lparr>accessToken := None, location := Some ''login.html''\<rparr>"
proof (intro conjI)
  show "deletePolicy policyId policyName onSuccess adminUser True (Response 401 errorText) b
      = b\<lparr>requests := requests b @ [GetMe token, DeletePolicyRequest policyId token],
           alerts := alerts b @ [''Your session has expired. Please login again.''],
           location := Some ''admin/login.html''\<rparr>"
    using assms
    by (simp add: deletePolicy_def deletePolicyRequest_def adminUser_def ok_def Let_def alert_def navigate_def)
  show "deletePolicy policyId policyName onSuccess adminUser True (Response 403 errorText) b
      = b\<lparr>requests := requests b @ [GetMe token, DeletePolicyRequest policyId token],
           alerts := alerts b @ [''Sorry, only admin is allowed to delete policy.'']\<rparr>"
    using assms
    by (simp add: deletePolicy_def deletePolicyRequest_def adminUser_def ok_def Let_def alert_def navigate_def)
  show "deletePolicy policyId policyName onSuccess (Response 401 body) confirmed deleted b
      = b\<lparr>requests := requests b @ [GetMe token],
           alerts := alerts b @ [''Your session has expired. Please login again.''],
           location := Some ''admin/login.html''\<rparr>"
    using assms by (simp add: deletePolicy_def ok_def Let_def alert_def navigate_def)
  show "approvePolicy policyId onSuccess True (Response 401 (statusText, jsonBody)) b
      = b\<lparr>requests := requests b @ [ApprovePolicyRequest policyId token],
           alerts := alerts b @ [''Your session has expired. Please login again.''],
           location := Some ''admin/login.html''\<rparr>"
    using assms by (simp add: approvePolicy_def ok_def Let_def alert_def navigate_def)
  show "approvePolicy policyId onSuccess True (Response 403 (statusText, jsonBody)) b
      = b\<lparr>requests := requests b @ [ApprovePolicyRequest policyId token],
           alerts := alerts b @ [''Only admins can approve policies.'']\<rparr>"
    using assms by (simp add: approvePolicy_def ok_def Let_def alert_def navigate_def)
  show "accessToken (deletePolicy policyId policyName None me confirmed deleted b) = accessToken b"
    by (rule deletePolicy_token)
  show "accessToken (approvePolicy policyId None confirmed approved b) = accessToken b"
    by (rule approvePolicy_token)
  show "handleLogout True b = b\<lparr>accessToken := None, location := Some ''login.html''\<rparr>"
    by (simp add: handleLogout_def navigate_def)
qed

text \<open>The theorem at a logged-in admin deleting policy "1.1.1".\<close>

theorem admin_actions_on_401_403_witness:
  "accessToken loggedIn = Some ''t0k3n'' \<and>
   deletePolicy ''1.1.1'' ''Mission'' None adminUser True (Response 401 []) loggedIn
     = loggedIn\<lparr>requests := [GetMe ''t0k3n'', DeletePolicyRequest ''1.1.1'' ''t0k3n''],
           alerts := [''Your session has expired. Please login again.''],
           location := Some ''admin/login.html''\<rparr> \<and>
   deletePolicy ''1.1.1'' ''Mission'' None adminUser True (Response 403 []) loggedIn
     = loggedIn\<lparr>requests := [GetMe ''t0k3n'', DeletePolicyRequest ''1.1.1'' ''t0k3n''],
           alerts := [''Sorry, only admin is allowed to delete policy.'']\<rparr>"
proof -
  have t: "accessToken loggedIn = Some ''t0k3n''" and ne: "''t0k3n'' \<noteq> []"
    and r: "requests loggedIn = []" and a: "alerts loggedIn = []"
    by (simp_all add: loggedIn_def)
  from admin_actions_on_401_403 [OF t ne, of "''1.1.1''" "''Mission''" None "[]"] t
  show ?thesis unfolding r a by simp
qed

text \<open>
  On a 401 the token is not discarded: after the redirect to the login page it is still
  in the storage, for the delete action and for the approve action.
\<close>

theorem token_kept_on_401_counterexample:
  "accessToken (deletePolicy ''1.1.1'' ''Mission'' None adminUser True (Response 401 []) loggedIn)
     = Some ''t0k3n'' \<and>
   location (deletePolicy ''1.1.1'' ''Mission'' None adminUser True (Response 401 []) loggedIn)
     = Some ''admin/login.html'' \<and>
   accessToken (approvePolicy ''1.1.1'' None True (Response 401 (''Unauthorized'', NullBody)) loggedIn)
     = Some ''t0k3n'' \<and>
   accessToken (deletePolicy ''1.1.1'' ''Mission'' None adminUser True (Response 401 []) loggedIn)
     \<noteq> None"
  by (simp add: deletePolicy_def deletePolicyRequest_def approvePolicy_def adminUser_def loggedIn_def ok_def
      Let_def alert_def navigate_def)
section \<open>The suggestion form validates before it sends\<close>

lemma reject_fields:
  "sentCalls (reject m c p) = sentCalls p \<and> shownAlerts (reject m c p) = shownAlerts p @ [m] \<and>
   policySelect (reject m c p) = policySelect p \<and> suggestionText (reject m c p) = suggestionText p \<and>
   emailInput (reject m c p) = emailInput p \<and> successMessageShown (reject m c p) = successMessageShown p"
  by (simp add: reject_def)

lemma submit_rejected:
  assumes "\<not> includesStr (emailInput p) ''@ualberta.ca''"
  shows "\<exists>m c. m \<in> set validationMessages \<and> submitSuggestion outcome p = reject m c p"
proof -
  consider (a) "trim (emailInput p) = []"
    | (b) "trim (emailInput p) \<noteq> []" "policySelect p = []"
    | (c) "trim (emailInput p) \<noteq> []" "policySelect p \<noteq> []" "trim (suggestionText p) = []"
    | (d) "trim (emailInput p) \<noteq> []" "policySelect p \<noteq> []" "trim (suggestionText p) \<noteq> []"
    by blast
  then show ?thesis
  proof cases
    case a
    then have "submitSuggestion outcome p = reject ''Please enter your UAlberta email address'' ''emailInput'' p"
      by (simp add: submitSuggestion_def Let_def)
    moreover have "''Please enter your UAlberta email address'' \<in> set validationMessages"
      by (simp add: validationMessages_def)
    ultimately show ?thesis by blast
  next
    case b
    then have "submitSuggestion outcome p = reject ''Please select a policy to refer to.'' ''policySelect'' p"
      by (simp add: submitSuggestion_def Let_def)
    moreover have "''Please select a policy to refer to.'' \<in> set validationMessages"
      by (simp add: validationMessages_def)
    ultimately show ?thesis by blast
  next
    case c
    then have "submitSuggestion outcome p = reject ''Please enter your suggestion.'' ''suggestionText'' p"
      by (simp add: submitSuggestion_def Let_def)
    moreover have "''Please enter your suggestion.'' \<in> set validationMessages"
      by (simp add: validationMessages_def)
    ultimately show ?thesis by blast
  next
    case d
    with assms have "submitSuggestion outcome p = reject ''Please enter a valid UAlberta email address'' ''emailInput'' p"
      by (simp add: submitSuggestion_def Let_def)
    moreover have "''Please enter a valid UAlberta email address'' \<in> set validationMessages"
      by (simp add: validationMessages_def)
    ultimately show ?thesis by blast
  qed
qed

text \<open>
  Claim C9. A submission whose email value does not contain "@ualberta.ca" is rejected in
  the browser: exactly one alert is shown, one of the four validation messages, no
  request is sent, whatever the network would have done, and the form keeps its values.
\<close>

theorem suggestion_without_ualberta_rejected:
  assumes "\<not> includesStr (emailInput p) ''@ualberta.ca''"
  shows "sentCalls (submitSuggestion outcome p) = sentCalls p \<and>
         (\<exists>message. message \<in> set validationMessages \<and>
            shownAlerts (submitSuggestion outcome p) = shownAlerts p @ [message]) \<and>
         policySelect (submitSuggestion outcome p) = policySelect p \<and>
         suggestionText (submitSuggestion outcome p) = suggestionText p \<and>
         emailInput (submitSuggestion outcome p) = emailInput p \<and>
         successMessageShown (submitSuggestion outcome p) = successMessageShown p"
proof -
  from submit_rejected [OF assms] obtain m c where
    m: "m \<in> set validationMessages" and s: "submitSuggestion outcome p = reject m c p" by blast
  show ?thesis unfolding s using m reject_fields [of m c p] by blast
qed

lemma other_domain_run:
  "\<not> includesStr (emailInput (filledForm ''student@gmail.com'')) ''@ualberta.ca'' \<and>
   submitSuggestion (Response 201 (JsonBody JUndefined ())) (filledForm ''student@gmail.com'')
     = (filledForm ''student@gmail.com'')
         \<lparr>focused := Some ''emailInput'',
          shownAlerts := [''Please enter a valid UAlberta email address'']\<rparr>"
  by code_simp

text \<open>The theorem at a filled form with an address of another domain.\<close>

theorem suggestion_without_ualberta_rejected_witness:
  "\<not> includesStr (emailInput (filledForm ''student@gmail.com'')) ''@ualberta.ca'' \<and>
   sentCalls (submitSuggestion (Response 201 (JsonBody JUndefined ())) (filledForm ''student@gmail.com'')) = [] \<and>
   shownAlerts (submitSuggestion (Response 201 (JsonBody JUndefined ())) (filledForm ''student@gmail.com''))
     = [''Please enter a valid UAlberta email address'']"
proof -
  have h: "\<not> includesStr (emailInput (filledForm ''student@gmail.com'')) ''@ualberta.ca''"
    using other_domain_run by blast
  have e: "sentCalls (filledForm ''student@gmail.com'') = []" by (simp add: filledForm_def)
  from suggestion_without_ualberta_rejected [OF h, of "Response 201 (JsonBody JUndefined ())"]
  have "sentCalls (submitSuggestion (Response 201 (JsonBody JUndefined ())) (filledForm ''student@gmail.com'')) = []"
    unfolding e by blast
  moreover have "shownAlerts (submitSuggestion (Response 201 (JsonBody JUndefined ())) (filledForm ''student@gmail.com''))
     = [''Please enter a valid UAlberta email address'']"
    using other_domain_run by simp
  ultimately show ?thesis using h by blast
qed

lemma submit_cases:
  "(\<exists>m c. m \<in> set validationMessages \<and> submitSuggestion outcome p = reject m c p) \<or>
   (policySelect p \<noteq> [] \<and> trim (suggestionText p) \<noteq> [] \<and> includesStr (emailInput p) ''@ualberta.ca'' \<and>
    sentCalls (submitSuggestion outcome p)
      = sentCalls p @ [suggestionCall (policySelect p) (trim (suggestionText p))] \<and>
    (shownAlerts (submitSuggestion outcome p) = shownAlerts p @ [thanksMessage] \<or>
     shownAlerts (submitSuggestion outcome p)
       = shownAlerts p @ [''Failed to submit suggestion. Please try again later.'']))"
proof (cases "trim (emailInput p) \<noteq> [] \<and> policySelect p \<noteq> [] \<and> trim (suggestionText p) \<noteq> [] \<and>
              includesStr (emailInput p) ''@ualberta.ca''")
  case True
  then show ?thesis
    by (cases "apiRequest outcome") (simp_all add: submitSuggestion_def Let_def thanksMessage_def)
next
  case False
  then consider (a) "trim (emailInput p) = []"
    | (b) "trim (emailInput p) \<noteq> []" "policySelect p = []"
    | (c) "trim (emailInput p) \<noteq> []" "policySelect p \<noteq> []" "trim (suggestionText p) = []"
    | (d) "trim (emailInput p) \<noteq> []" "policySelect p \<noteq> []" "trim (suggestionText p) \<noteq> []"
          "\<not> includesStr (emailInput p) ''@ualberta.ca''"
    by blast
  then have "\<exists>m c. m \<in> set validationMessages \<and> submitSuggestion outcome p = reject m c p"
  proof cases
    case a
    then have "submitSuggestion outcome p = reject ''Please enter your UAlberta email address'' ''emailInput'' p"
      by (simp add: submitSuggestion_def Let_def)
    moreover have "''Please enter your UAlberta email address'' \<in> set validationMessages"
      by (simp add: validationMessages_def)
    ultimately show ?thesis by blast
  next
    case b
    then have "submitSuggestion outcome p = reject ''Please select a policy to refer to.'' ''policySelect'' p"
      by (simp add: submitSuggestion_def Let_def)
    moreover have "''Please select a policy to refer to.'' \<in> set validationMessages"
      by (simp add: validationMessages_def)
    ultimately show ?thesis by blast
  next
    case c
    then have "submitSuggestion outcome p = reject ''Please enter your suggestion.'' ''suggestionText'' p"
      by (simp add: submitSuggestion_def Let_def)
    moreover have "''Please enter your suggestion.'' \<in> set validationMessages"
      by (simp add: validationMessages_def)
    ultimately show ?thesis by blast
  next
    case d
    then show ?thesis using submit_rejected by blast
  qed
  then show ?thesis by blast
qed

lemma thanks_not_validation: "thanksMessage \<notin> set validationMessages"
  by (simp add: thanksMessage_def validationMessages_def)

text \<open>
  Claim C10. A submission sends no request, or exactly one, and that one only with a
  selected policy: a POST to the suggestions endpoint whose body has exactly the fields
  \<^verbatim>\<open>policy_id\<close> (the selected policy), \<^verbatim>\<open>suggestion\<close> (the trimmed text) and \<^verbatim>\<open>status\<close>
  ("pending"). A successful submission (the thanks alert) has sent that request. The
  request is built from the selected policy and the text alone: whatever is entered as
  email, the request is this one or none.
\<close>

theorem suggestion_request_body:
  "(sentCalls (submitSuggestion outcome p) = sentCalls p \<or>
    sentCalls (submitSuggestion outcome p)
      = sentCalls p @ [suggestionCall (policySelect p) (trim (suggestionText p))] \<and>
    policySelect p \<noteq> []) \<and>
   (shownAlerts (submitSuggestion outcome p) = shownAlerts p @ [thanksMessage] \<longrightarrow>
      sentCalls (submitSuggestion outcome p)
        = sentCalls p @ [suggestionCall (policySelect p) (trim (suggestionText p))] \<and>
      policySelect p \<noteq> []) \<and>
   c_endpoint (suggestionCall selectedPolicyId suggestion) = ''/api/suggestions'' \<and>
   c_method (suggestionCall selectedPolicyId suggestion) = ''POST'' \<and>
   c_body (suggestionCall selectedPolicyId suggestion)
     = [(''policy_id'', selectedPolicyId), (''suggestion'', suggestion), (''status'', ''pending'')] \<and>
   (sentCalls (submitSuggestion outcome (p\<lparr>emailInput := otherEmail\<rparr>)) = sentCalls p \<or>
    sentCalls (submitSuggestion outcome (p\<lparr>emailInput := otherEmail\<rparr>))
      = sentCalls p @ [suggestionCall (policySelect p) (trim (suggestionText p))])"
proof (intro conjI impI)
  show "sentCalls (submitSuggestion outcome p) = sentCalls p \<or>
    sentCalls (submitSuggestion outcome p)
      = sentCalls p @ [suggestionCall (policySelect p) (trim (suggestionText p))] \<and>
    policySelect p \<noteq> []"
    using submit_cases [of outcome p] reject_fields by metis
  show "sentCalls (submitSuggestion outcome p)
        = sentCalls p @ [suggestionCall (policySelect p) (trim (suggestionText p))]"
    and "policySelect p \<noteq> []"
    if t: "shownAlerts (submitSuggestion outcome p) = shownAlerts p @ [thanksMessage]"
  proof -
    have "\<not> (\<exists>m c. m \<in> set validationMessages \<and> submitSuggestion outcome p = reject m c p)"
    proof
      assume "\<exists>m c. m \<in> set validationMessages \<and> submitSuggestion outcome p = reject m c p"
      then obtain m c where m: "m \<in> set validationMessages" and s: "submitSuggestion outcome p = reject m c p"
        by blast
      from t s have "m = thanksMessage" by (simp add: reject_def)
      with m thanks_not_validation show False by simp
    qed
    with submit_cases [of outcome p]
    show "sentCalls (submitSuggestion outcome p)
        = sentCalls p @ [suggestionCall (policySelect p) (trim (suggestionText p))]"
      and "policySelect p \<noteq> []" by blast+
  qed
  show "c_endpoint (suggestionCall selectedPolicyId suggestion) = ''/api/suggestions''"
    and "c_method (suggestionCall selectedPolicyId suggestion) = ''POST''"
    and "c_body (suggestionCall selectedPolicyId suggestion)
     = [(''policy_id'', selectedPolicyId), (''suggestion'', suggestion), (''status'', ''pending'')]"
    by (simp_all add: suggestionCall_def)
  show "sentCalls (submitSuggestion outcome (p\<lparr>emailInput := otherEmail\<rparr>)) = sentCalls p \<or>
    sentCalls (submitSuggestion outcome (p\<lparr>emailInput := otherEmail\<rparr>))
      = sentCalls p @ [suggestionCall (policySelect p) (trim (suggestionText p))]"
    using submit_cases [of outcome "p\<lparr>emailInput := otherEmail\<rparr>"]
      reject_fields [of _ _ "p\<lparr>emailInput := otherEmail\<rparr>"]
    by auto
qed

lemma ualberta_run:
  "submitSuggestion (Response 201 (JsonBody JUndefined ())) (filledForm ''student@ualberta.ca'')
     = (filledForm ''student@ualberta.ca'')
         \<lparr>policySelect := [], suggestionText := [], emailInput := [],
          shownAlerts := [thanksMessage],
          sentCalls := [suggestionCall ''1.1.1'' ''Please clarify section 2.''],
          successMessageShown := True\<rparr>"
  by code_simp

text \<open>The theorem at a filled form with a university address and a server that accepts.\<close>

theorem suggestion_request_body_witness:
  "shownAlerts (submitSuggestion (Response 201 (JsonBody JUndefined ())) (filledForm ''student@ualberta.ca''))
     = shownAlerts (filledForm ''student@ualberta.ca'') @ [thanksMessage] \<and>
   sentCalls (submitSuggestion (Response 201 (JsonBody JUndefined ())) (filledForm ''student@ualberta.ca''))
     = [suggestionCall ''1.1.1'' ''Please clarify section 2.''] \<and>
   c_body (suggestionCall ''1.1.1'' ''Please clarify section 2.'')
     = [(''policy_id'', ''1.1.1''), (''suggestion'', ''Please clarify section 2.''), (''status'', ''pending'')]"
proof -
  let ?p = "filledForm ''student@ualberta.ca''"
  have a: "shownAlerts (submitSuggestion (Response 201 (JsonBody JUndefined ())) ?p)
     = shownAlerts ?p @ [thanksMessage]"
    unfolding ualberta_run by (simp add: filledForm_def)
  have tr: "trim (suggestionText ?p) = ''Please clarify section 2.''" by code_simp
  have ps: "policySelect ?p = ''1.1.1''" and sc: "sentCalls ?p = []" by (simp_all add: filledForm_def)
  from suggestion_request_body [of "Response 201 (JsonBody JUndefined ())" ?p
      "''1.1.1''" "''Please clarify section 2.''"]
  have "shownAlerts (submitSuggestion (Response 201 (JsonBody JUndefined ())) ?p) = shownAlerts ?p @ [thanksMessage] \<longrightarrow>
      sentCalls (submitSuggestion (Response 201 (JsonBody JUndefined ())) ?p)
        = sentCalls ?p @ [suggestionCall (policySelect ?p) (trim (suggestionText ?p))]"
    and "c_body (suggestionCall ''1.1.1'' ''Please clarify section 2.'')
     = [(''policy_id'', ''1.1.1''), (''suggestion'', ''Please clarify section 2.''), (''status'', ''pending'')]"
    by blast+
  with a show ?thesis unfolding tr ps sc by simp
qed
end
